theory Spec2Isabelle
  imports Main "HOL-Library.Word"
begin

section \<open>The signalling server: data model\<close>

text \<open>
  The server keeps four registries (\<open>users\<close>, the two socket maps, \<open>rooms\<close>,
  \<open>invites\<close>) and handles one message at a time, from receipt to response.
  Identifiers (user, room, game and invite ids, friend codes) are \<open>string\<close>s and stand
  for the values a handler binds at its top, after \<open>String(...).trim()\<close> (and
  \<open>.toUpperCase()\<close> for room ids). A chat text is kept as the list of its UTF-16 code
  units, since the chat handler trims and slices it. Sockets are numbered.
\<close>

type_synonym jstext = "16 word list"
type_synonym userKey = string
type_synonym roomKey = string
type_synonym gameKey = string
type_synonym romText = string

record UserRecord =
  userId :: string
  displayName :: string
  friendCode :: string
  friends :: "string list"
  avatarDataUrl :: "string option"

record InviteRecord =
  inviteId :: string
  fromUserId :: string
  toUserId :: string
  inviteRoomId :: string
  inviteGameId :: string
  inviteCreatedAt :: string

datatype SessionMode = Lockstep | Stream

record SessionRecord =
  mode :: SessionMode
  sessionGameId :: string
  gameName :: string
  platform :: string
  emulatorId :: "string option"
  romHash :: "string option"
  protocolVersion :: "string option"
  coreVersion :: "string option"
  romBase64 :: "string option"
  startedAt :: string

record ChatMessage =
  chatId :: string
  chatRoomId :: string
  chatFromUserId :: string
  fromDisplayName :: string
  chatText :: jstext
  createdAt :: string

record RoomRecord =
  roomId :: string
  hostUserId :: string
  gameId :: string
  members :: "string list"
  spectators :: "string list"
  locked :: bool
  readyByUserId :: "string list"
  chat :: "ChatMessage list"
  session :: "SessionRecord option"

record server =
  users :: "UserRecord list"
  socketsByUserId :: "string \<rightharpoonup> nat set"
  socketUser :: "nat \<rightharpoonup> string"
  rooms :: "string \<rightharpoonup> RoomRecord"
  invites :: "string \<rightharpoonup> InviteRecord"

text \<open>
  What a handler sends back: \<open>sendResponse(ws, requestId, true, payload)\<close> is \<open>Ok payload\<close>,
  \<open>sendResponse(ws, requestId, false, undefined, error)\<close> is \<open>Err error\<close>, and a relay
  handler that answers only a request with a \<open>requestId\<close> gives \<open>NoReply\<close> otherwise.
  The payload of the friends list keeps the friends' identity and online flag; its room
  fields (found by scanning the rooms in insertion order) are left out, as are the
  \<open>presence:update\<close>, \<open>friends:list\<close> and \<open>room:update\<close> events: they read the registries
  and never write them. The \<open>room:chat\<close> broadcast is modelled.
\<close>

datatype payload =
    PUserId string
  | PFriends "(string \<times> string \<times> string \<times> string option \<times> bool) list"
  | PRoomState string string string "string list" "string list" bool "string list"
  | PChatHistory "ChatMessage list"
  | PDelivered
  | PStarted
  | PClosed bool
  | PInviteId string
  | PDeclined
  | PRoomId string

datatype reply = Ok payload | Err string | NoReply

datatype request =
    Auth string string string string
  | FriendsList
  | FriendsAdd string
  | RoomCreate string
  | RoomJoin string bool
  | RoomState string
  | RoomChatHistory string
  | RoomChatSend string jstext
  | RoomReady string bool
  | RoomLock string bool
  | RoomKick string string
  | RoomTransferHost string string
  | NetplayStart string string string string string string string string string
  | StreamStart string string string string
  | NetplayInput string "int option" "int option"
  | StreamSignal string string bool
  | StreamInput string "int option"
  | RoomPause string "bool option"
  | RoomClose string
  | InviteSend string string string
  | InviteRespond string bool
  | UnknownType string

text \<open>
  What a handler takes from outside the registries: a fresh \<open>uuidv4()\<close>, the clock's
  \<open>new Date().toISOString()\<close>, and whether the envelope carried a \<open>requestId\<close>.
\<close>

record env =
  uuid :: string
  now :: string
  hasRequestId :: bool

section \<open>Array and string helpers of the runtime\<close>

text \<open>\<open>xs.slice(-n)\<close>: the last \<open>n\<close> elements, all of them when there are fewer.\<close>

definition sliceLast :: "nat \<Rightarrow> 'a list \<Rightarrow> 'a list" where
  "sliceLast n xs = drop (length xs - n) xs"

text \<open>
  \<open>String.prototype.trim\<close> strips the code units of ECMAScript's WhiteSpace and
  LineTerminator productions from both ends.
\<close>

definition isWhiteSpace :: "16 word \<Rightarrow> bool" where
  "isWhiteSpace c \<longleftrightarrow>
     c \<in> set [0x09, 0x0A, 0x0B, 0x0C, 0x0D, 0x20, 0xA0, 0x1680,
               0x2000, 0x2001, 0x2002, 0x2003, 0x2004, 0x2005, 0x2006, 0x2007,
               0x2008, 0x2009, 0x200A, 0x2028, 0x2029, 0x202F, 0x205F, 0x3000, 0xFEFF]"

definition trim :: "jstext \<Rightarrow> jstext" where
  "trim t = rev (dropWhile isWhiteSpace (rev (dropWhile isWhiteSpace t)))"

text \<open>The object an \<open>Array.prototype.find\<close> returned, mutated in place.\<close>

fun mutateFirst :: "('a \<Rightarrow> bool) \<Rightarrow> ('a \<Rightarrow> 'a) \<Rightarrow> 'a list \<Rightarrow> 'a list" where
  "mutateFirst P f [] = []"
| "mutateFirst P f (x # xs) = (if P x then f x # xs else x # mutateFirst P f xs)"

section \<open>Registry helpers\<close>

definition getUserById :: "UserRecord list \<Rightarrow> string \<Rightarrow> UserRecord option" where
  "getUserById us uid = find (\<lambda>u. userId u = uid) us"

text \<open>
  \<open>toUpperCase\<close> is the runtime's Unicode case mapping; the lookup takes it as a
  parameter.
\<close>

definition getUserByCode ::
  "(string \<Rightarrow> string) \<Rightarrow> UserRecord list \<Rightarrow> string \<Rightarrow> UserRecord option" where
  "getUserByCode toUpperCase us code =
     find (\<lambda>u. toUpperCase (friendCode u) = toUpperCase code) us"

definition areFriends :: "server \<Rightarrow> string \<Rightarrow> string \<Rightarrow> bool" where
  "areFriends s uid other =
     (case getUserById (users s) uid of
        None \<Rightarrow> False
      | Some u \<Rightarrow> other \<in> set (friends u))"

definition isOnline :: "server \<Rightarrow> string \<Rightarrow> bool" where
  "isOnline s uid =
     (case socketsByUserId s uid of None \<Rightarrow> False | Some socks \<Rightarrow> socks \<noteq> {})"

definition setSocketUser :: "server \<Rightarrow> nat \<Rightarrow> string \<Rightarrow> server" where
  "setSocketUser s ws uid =
     s\<lparr>socketUser := (socketUser s)(ws \<mapsto> uid),
       socketsByUserId := (socketsByUserId s)(uid \<mapsto>
         insert ws (case socketsByUserId s uid of None \<Rightarrow> {} | Some socks \<Rightarrow> socks))\<rparr>"

definition dropSocketUser :: "server \<Rightarrow> nat \<Rightarrow> server" where
  "dropSocketUser s ws =
     (case socketUser s ws of
        None \<Rightarrow> s
      | Some uid \<Rightarrow>
          if uid = [] then s
          else
            let s1 = s\<lparr>socketUser := (socketUser s)(ws := None)\<rparr> in
            (case socketsByUserId s1 uid of
               None \<Rightarrow> s1
             | Some socks \<Rightarrow>
                 if socks - {ws} = {}
                 then s1\<lparr>socketsByUserId := (socketsByUserId s1)(uid := None)\<rparr>
                 else s1\<lparr>socketsByUserId := (socketsByUserId s1)(uid \<mapsto> socks - {ws})\<rparr>))"

definition sendEventToRoom :: "RoomRecord \<Rightarrow> 'e \<Rightarrow> (string \<times> 'e) list" where
  "sendEventToRoom room ev = map (\<lambda>memberId. (memberId, ev)) (members room)"

definition roomStatePayload :: "RoomRecord \<Rightarrow> payload" where
  "roomStatePayload room =
     PRoomState (roomId room) (gameId room) (hostUserId room) (members room)
       (spectators room) (locked room) (readyByUserId room)"

definition friendsPayload ::
  "server \<Rightarrow> string \<Rightarrow> (string \<times> string \<times> string \<times> string option \<times> bool) list" where
  "friendsPayload s uid =
     (case getUserById (users s) uid of
        None \<Rightarrow> []
      | Some user \<Rightarrow>
          map (\<lambda>friend. (userId friend, displayName friend, friendCode friend,
                          avatarDataUrl friend, isOnline s (userId friend)))
            (List.map_filter (\<lambda>friendId. getUserById (users s) friendId) (friends user)))"

text \<open>
  One room of \<open>removeUserFromRooms\<close>'s loop, for a room that lists the user: \<open>None\<close> is
  \<open>rooms.delete(room.roomId)\<close>. Every entry of \<open>rooms\<close> is stored under its own
  \<open>roomId\<close> (\<open>room:create\<close> is the only insertion), so the deletion removes the entry
  the loop is at.
\<close>

definition leaveRoom :: "string \<Rightarrow> RoomRecord \<Rightarrow> RoomRecord option" where
  "leaveRoom uid room =
     (let members1 = filter (\<lambda>i. i \<noteq> uid) (members room);
          spectators1 = filter (\<lambda>i. i \<noteq> uid) (spectators room);
          ready1 = filter (\<lambda>i. i \<in> set members1) (readyByUserId room)
      in case members1 of
           [] \<Rightarrow> None
         | first # _ \<Rightarrow>
             Some (room\<lparr>members := members1, spectators := spectators1,
                        readyByUserId := ready1,
                        hostUserId := (if hostUserId room = uid then first
                                       else hostUserId room)\<rparr>))"

definition removeUserFromRooms :: "server \<Rightarrow> string \<Rightarrow> server" where
  "removeUserFromRooms s uid =
     s\<lparr>rooms := (\<lambda>k. case rooms s k of
                        None \<Rightarrow> None
                      | Some room \<Rightarrow>
                          if uid \<notin> set (members room) then Some room
                          else leaveRoom uid room)\<rparr>"

section \<open>The message handlers\<close>

text \<open>
  Each handler is the body of one \<open>if (msg.type === ...)\<close> block of the
  \<open>ws.on("message")\<close> callback, after the actor was resolved from the socket. It takes
  the registries and returns them as the handler leaves them, with the response.
\<close>

definition auth :: "server \<Rightarrow> nat \<Rightarrow> string \<Rightarrow> string \<Rightarrow> string \<Rightarrow> string \<Rightarrow> server \<times> reply" where
  "auth s ws uid name code avatar =
     (if uid = [] \<or> name = [] \<or> code = [] then (s, Err ''Invalid auth payload'')
      else
        let av = (if take 11 avatar = ''data:image/'' then Some avatar else None);
            users1 =
              (case getUserById (users s) uid of
                 Some existing \<Rightarrow>
                   mutateFirst (\<lambda>u. userId u = uid)
                     (\<lambda>u. u\<lparr>displayName := name, friendCode := code, avatarDataUrl := av\<rparr>)
                     (users s)
               | None \<Rightarrow>
                   users s @ [\<lparr>userId = uid, displayName = name, friendCode = code,
                               friends = [], avatarDataUrl = av\<rparr>])
        in (setSocketUser (s\<lparr>users := users1\<rparr>) ws uid, Ok (PUserId uid)))"

definition friends_list :: "server \<Rightarrow> string \<Rightarrow> server \<times> reply" where
  "friends_list s actorId = (s, Ok (PFriends (friendsPayload s actorId)))"

text \<open>\<open>if (!u.friends.includes(id)) u.friends.push(id)\<close>.\<close>

definition addFriend :: "string \<Rightarrow> UserRecord \<Rightarrow> UserRecord" where
  "addFriend fid u = (if fid \<in> set (friends u) then u else u\<lparr>friends := friends u @ [fid]\<rparr>)"

definition friends_add ::
  "(string \<Rightarrow> string) \<Rightarrow> server \<Rightarrow> string \<Rightarrow> string \<Rightarrow> server \<times> reply" where
  "friends_add toUpperCase s actorId code =
     (case (getUserById (users s) actorId, getUserByCode toUpperCase (users s) code) of
        (Some actor, Some friend) \<Rightarrow>
          if userId friend = userId actor then (s, Err ''Cannot add yourself'')
          else
            let users1 =
                  mutateFirst (\<lambda>u. userId u = actorId) (addFriend (userId friend))
                    (users s);
                users2 =
                  mutateFirst (\<lambda>u. toUpperCase (friendCode u) = toUpperCase code)
                    (addFriend (userId actor)) users1;
                s1 = s\<lparr>users := users2\<rparr>
            in (s1, Ok (PFriends (friendsPayload s1 (userId actor))))
      | _ \<Rightarrow> (s, Err ''Friend code not found''))"

definition room_create :: "server \<Rightarrow> string \<Rightarrow> string \<Rightarrow> string \<Rightarrow> server \<times> reply" where
  "room_create s actorId game newRoomId =
     (if game = [] then (s, Err ''gameId is required'')
      else
        let room = \<lparr>roomId = newRoomId, hostUserId = actorId, gameId = game,
                    members = [actorId], spectators = [], locked = False,
                    readyByUserId = [], chat = [], session = None\<rparr>
        in (s\<lparr>rooms := (rooms s)(newRoomId \<mapsto> room)\<rparr>, Ok (roomStatePayload room)))"

definition isStream :: "RoomRecord \<Rightarrow> bool" where
  "isStream room = (case session room of None \<Rightarrow> False | Some se \<Rightarrow> mode se = Stream)"

definition room_join :: "server \<Rightarrow> string \<Rightarrow> string \<Rightarrow> bool \<Rightarrow> server \<times> reply" where
  "room_join s actorId rid joinAsSpectator =
     (case rooms s rid of
        None \<Rightarrow> (s, Err ''Room not found'')
      | Some room \<Rightarrow>
          if locked room \<and> actorId \<notin> set (members room) then (s, Err ''Room is locked'')
          else if isStream room \<and> actorId \<notin> set (members room) \<and> \<not> joinAsSpectator
          then (s, Err ''Streaming room is full'')
          else
            let members1 = (if actorId \<notin> set (members room) then members room @ [actorId]
                            else members room);
                spectators1 =
                  (if joinAsSpectator
                   then (if actorId \<notin> set (spectators room) then spectators room @ [actorId]
                         else spectators room)
                   else filter (\<lambda>i. i \<noteq> actorId) (spectators room));
                room1 = room\<lparr>members := members1, spectators := spectators1\<rparr>
            in (s\<lparr>rooms := (rooms s)(rid \<mapsto> room1)\<rparr>, Ok (roomStatePayload room1)))"

definition room_state :: "server \<Rightarrow> string \<Rightarrow> string \<Rightarrow> server \<times> reply" where
  "room_state s actorId rid =
     (case rooms s rid of
        None \<Rightarrow> (s, Err ''Room not found'')
      | Some room \<Rightarrow>
          if actorId \<notin> set (members room) then (s, Err ''Not a room member'')
          else (s, Ok (roomStatePayload room)))"

definition room_chat_history :: "server \<Rightarrow> string \<Rightarrow> string \<Rightarrow> server \<times> reply" where
  "room_chat_history s actorId rid =
     (case rooms s rid of
        None \<Rightarrow> (s, Err ''Room not found'')
      | Some room \<Rightarrow>
          if actorId \<notin> set (members room) then (s, Err ''Not a room member'')
          else (s, Ok (PChatHistory (sliceLast 100 (chat room)))))"

text \<open>
  The \<open>message\<close> object of \<open>room:chat:send\<close>, for the trimmed text \<open>txt\<close>. The
  handler also returns its broadcast: the \<open>room:chat\<close> event, once for each member the
  loop of \<open>sendEventToRoom\<close> visits.
\<close>

definition newChatMessage :: "server \<Rightarrow> string \<Rightarrow> RoomRecord \<Rightarrow> jstext \<Rightarrow> env \<Rightarrow> ChatMessage" where
  "newChatMessage s actorId room txt e =
     \<lparr>chatId = uuid e, chatRoomId = roomId room, chatFromUserId = actorId,
      fromDisplayName =
        (case getUserById (users s) actorId of
           None \<Rightarrow> ''Player''
         | Some fromUser \<Rightarrow>
             if displayName fromUser = [] then ''Player'' else displayName fromUser),
      chatText = take 400 txt, createdAt = now e\<rparr>"

definition room_chat_send ::
  "server \<Rightarrow> string \<Rightarrow> string \<Rightarrow> jstext \<Rightarrow> env \<Rightarrow> (server \<times> reply) \<times> (string \<times> ChatMessage) list" where
  "room_chat_send s actorId rid rawText e =
     (let txt = trim rawText in
      case rooms s rid of
        None \<Rightarrow> ((s, Err ''Room not found''), [])
      | Some room \<Rightarrow>
          if actorId \<notin> set (members room) then ((s, Err ''Not a room member''), [])
          else if txt = [] then ((s, Err ''Message is empty''), [])
          else
            let message = newChatMessage s actorId room txt e;
                chat1 = chat room @ [message];
                chat2 = (if length chat1 > 200 then sliceLast 200 chat1 else chat1);
                room1 = room\<lparr>chat := chat2\<rparr>
            in ((s\<lparr>rooms := (rooms s)(rid \<mapsto> room1)\<rparr>, Ok PDelivered),
                sendEventToRoom room1 message))"

definition room_ready :: "server \<Rightarrow> string \<Rightarrow> string \<Rightarrow> bool \<Rightarrow> server \<times> reply" where
  "room_ready s actorId rid ready =
     (case rooms s rid of
        None \<Rightarrow> (s, Err ''Room not found'')
      | Some room \<Rightarrow>
          if actorId \<notin> set (members room) then (s, Err ''Not a room member'')
          else if actorId \<in> set (spectators room)
          then (s, Err ''Spectator cannot toggle ready'')
          else
            let ready0 = filter (\<lambda>i. i \<in> set (members room)) (readyByUserId room);
                ready1 =
                  (if ready
                   then (if actorId \<notin> set ready0 then ready0 @ [actorId] else ready0)
                   else filter (\<lambda>i. i \<noteq> actorId) ready0);
                room1 = room\<lparr>readyByUserId := ready1\<rparr>
            in (s\<lparr>rooms := (rooms s)(rid \<mapsto> room1)\<rparr>, Ok (roomStatePayload room1)))"

definition room_lock :: "server \<Rightarrow> string \<Rightarrow> string \<Rightarrow> bool \<Rightarrow> server \<times> reply" where
  "room_lock s actorId rid lck =
     (case rooms s rid of
        None \<Rightarrow> (s, Err ''Room not found'')
      | Some room \<Rightarrow>
          if hostUserId room \<noteq> actorId then (s, Err ''Only host can change lock'')
          else
            let room1 = room\<lparr>locked := lck\<rparr>
            in (s\<lparr>rooms := (rooms s)(rid \<mapsto> room1)\<rparr>, Ok (roomStatePayload room1)))"

definition room_kick :: "server \<Rightarrow> string \<Rightarrow> string \<Rightarrow> string \<Rightarrow> server \<times> reply" where
  "room_kick s actorId rid targetUserId =
     (case rooms s rid of
        None \<Rightarrow> (s, Err ''Room not found'')
      | Some room \<Rightarrow>
          if hostUserId room \<noteq> actorId then (s, Err ''Only host can kick'')
          else if targetUserId = [] \<or> targetUserId = actorId
          then (s, Err ''Invalid target user'')
          else if targetUserId \<notin> set (members room)
          then (s, Err ''Target user is not in room'')
          else
            let members1 = filter (\<lambda>i. i \<noteq> targetUserId) (members room);
                spectators1 = filter (\<lambda>i. i \<noteq> targetUserId) (spectators room);
                ready1 = filter (\<lambda>i. i \<noteq> targetUserId \<and> i \<in> set members1)
                           (readyByUserId room);
                room1 = room\<lparr>members := members1, spectators := spectators1,
                             readyByUserId := ready1\<rparr>
            in (s\<lparr>rooms := (rooms s)(rid \<mapsto> room1)\<rparr>, Ok (roomStatePayload room1)))"

definition room_transferHost :: "server \<Rightarrow> string \<Rightarrow> string \<Rightarrow> string \<Rightarrow> server \<times> reply" where
  "room_transferHost s actorId rid targetUserId =
     (case rooms s rid of
        None \<Rightarrow> (s, Err ''Room not found'')
      | Some room \<Rightarrow>
          if hostUserId room \<noteq> actorId then (s, Err ''Only host can transfer host'')
          else if targetUserId = [] \<or> targetUserId \<notin> set (members room)
          then (s, Err ''Target user is not in room'')
          else if targetUserId = actorId then (s, Ok (roomStatePayload room))
          else
            let room1 = room\<lparr>hostUserId := targetUserId\<rparr>
            in (s\<lparr>rooms := (rooms s)(rid \<mapsto> room1)\<rparr>, Ok (roomStatePayload room1)))"

definition netplay_start ::
  "server \<Rightarrow> userKey \<Rightarrow> roomKey \<Rightarrow> gameKey \<Rightarrow> string \<Rightarrow> string \<Rightarrow> string \<Rightarrow> string
     \<Rightarrow> string \<Rightarrow> string \<Rightarrow> romText \<Rightarrow> env \<Rightarrow> server \<times> reply" where
  "netplay_start s actorId rid game gname plat emu hash proto core rom e =
     (case rooms s rid of
        None \<Rightarrow> (s, Err ''Room not found'')
      | Some room \<Rightarrow>
          if hostUserId room \<noteq> actorId then (s, Err ''Only host can start netplay'')
          else if actorId \<notin> set (members room) then (s, Err ''Not a room member'')
          else if game = [] \<or> rom = [] \<or> emu = [] \<or> hash = []
          then (s, Err ''gameId, romBase64, emulatorId and romHash are required'')
          else
            let room1 = room\<lparr>session := Some
                  \<lparr>mode = Lockstep, sessionGameId = game, gameName = gname, platform = plat,
                   emulatorId = Some emu, romHash = Some hash, protocolVersion = Some proto,
                   coreVersion = Some core, romBase64 = Some rom, startedAt = now e\<rparr>\<rparr>
            in (s\<lparr>rooms := (rooms s)(rid \<mapsto> room1)\<rparr>, Ok PStarted))"

text \<open>The local \<open>players\<close> of \<open>stream:start\<close>: the members that are not spectators.\<close>

definition players :: "RoomRecord \<Rightarrow> string list" where
  "players room = filter (\<lambda>i. i \<notin> set (spectators room)) (members room)"

definition stream_start ::
  "server \<Rightarrow> string \<Rightarrow> string \<Rightarrow> string \<Rightarrow> string \<Rightarrow> string \<Rightarrow> env \<Rightarrow> server \<times> reply" where
  "stream_start s actorId rid game gname plat e =
     (case rooms s rid of
        None \<Rightarrow> (s, Err ''Room not found'')
      | Some room \<Rightarrow>
          if hostUserId room \<noteq> actorId then (s, Err ''Only host can start stream'')
          else if actorId \<notin> set (members room) then (s, Err ''Not a room member'')
          else if game = [] then (s, Err ''gameId is required'')
          else
            if length (players room) \<noteq> 2
            then (s, Err ''Streaming mode requires exactly 2 members'')
            else
              let room1 = room\<lparr>session := Some
                    \<lparr>mode = Stream, sessionGameId = game, gameName = gname, platform = plat,
                     emulatorId = None, romHash = None, protocolVersion = None,
                     coreVersion = None, romBase64 = None, startedAt = now e\<rparr>\<rparr>
              in (s\<lparr>rooms := (rooms s)(rid \<mapsto> room1)\<rparr>, Ok PStarted))"

text \<open>
  The relay handlers forward a payload and leave the registries alone. A number of the
  payload is \<open>None\<close> when \<open>Number.isFinite\<close> refuses it; \<open>signalOk\<close> says that the
  signal is an object.
\<close>

definition relayReply :: "env \<Rightarrow> reply" where
  "relayReply e = (if hasRequestId e then Ok PDelivered else NoReply)"

definition netplay_input ::
  "server \<Rightarrow> string \<Rightarrow> string \<Rightarrow> int option \<Rightarrow> int option \<Rightarrow> env \<Rightarrow> server \<times> reply" where
  "netplay_input s actorId rid frame state e =
     (case rooms s rid of
        None \<Rightarrow> (s, Err ''Room not found'')
      | Some room \<Rightarrow>
          if actorId \<notin> set (members room) then (s, Err ''Not a room member'')
          else (case session room of
                  None \<Rightarrow> (s, Err ''Netplay not started'')
                | Some se \<Rightarrow>
                    if mode se \<noteq> Lockstep then (s, Err ''Room is in streaming mode'')
                    else if frame = None \<or> state = None
                    then (s, Err ''frame and state are required'')
                    else (s, relayReply e)))"

definition stream_signal ::
  "server \<Rightarrow> string \<Rightarrow> string \<Rightarrow> string \<Rightarrow> bool \<Rightarrow> env \<Rightarrow> server \<times> reply" where
  "stream_signal s actorId rid targetUserId signalOk e =
     (case rooms s rid of
        None \<Rightarrow> (s, Err ''Room not found'')
      | Some room \<Rightarrow>
          if actorId \<notin> set (members room) then (s, Err ''Not a room member'')
          else if targetUserId = [] \<or> targetUserId \<notin> set (members room)
          then (s, Err ''Target is not in room'')
          else if \<not> signalOk then (s, Err ''signal payload is required'')
          else (s, relayReply e))"

definition stream_input ::
  "server \<Rightarrow> string \<Rightarrow> string \<Rightarrow> int option \<Rightarrow> env \<Rightarrow> server \<times> reply" where
  "stream_input s actorId rid state e =
     (case rooms s rid of
        None \<Rightarrow> (s, Err ''Room not found'')
      | Some room \<Rightarrow>
          if actorId \<notin> set (members room) then (s, Err ''Not a room member'')
          else if actorId = hostUserId room
          then (s, Err ''Host should not send stream input'')
          else if state = None then (s, Err ''state is required'')
          else if \<not> isStream room then (s, Err ''Streaming mode is not active'')
          else (s, relayReply e))"

definition room_pause ::
  "server \<Rightarrow> string \<Rightarrow> string \<Rightarrow> bool option \<Rightarrow> env \<Rightarrow> server \<times> reply" where
  "room_pause s actorId rid paused e =
     (case rooms s rid of
        None \<Rightarrow> (s, Err ''Room not found'')
      | Some room \<Rightarrow>
          if actorId \<notin> set (members room) then (s, Err ''Not a room member'')
          else if session room = None then (s, Err ''Session is not active'')
          else if paused = None then (s, Err ''paused flag is required'')
          else (s, relayReply e))"

definition room_close :: "server \<Rightarrow> string \<Rightarrow> string \<Rightarrow> server \<times> reply" where
  "room_close s actorId rid =
     (if rid = [] then (s, Err ''roomId is required'')
      else
        case rooms s rid of
          None \<Rightarrow> (s, Ok (PClosed False))
        | Some room \<Rightarrow>
            if actorId \<notin> set (members room) then (s, Err ''Not a room member'')
            else if hostUserId room = actorId
            then (s\<lparr>rooms := (rooms s)(roomId room := None)\<rparr>, Ok (PClosed True))
            else
              let members1 = filter (\<lambda>i. i \<noteq> actorId) (members room);
                  spectators1 = filter (\<lambda>i. i \<noteq> actorId) (spectators room);
                  ready1 = filter (\<lambda>i. i \<noteq> actorId \<and> i \<in> set members1)
                             (readyByUserId room);
                  room1 = room\<lparr>members := members1, spectators := spectators1,
                               readyByUserId := ready1\<rparr>
              in (s\<lparr>rooms := (rooms s)(rid \<mapsto> room1)\<rparr>, Ok (PClosed True)))"

definition invite_send ::
  "server \<Rightarrow> string \<Rightarrow> string \<Rightarrow> string \<Rightarrow> string \<Rightarrow> env \<Rightarrow> server \<times> reply" where
  "invite_send s actorId friendUserId rid game e =
     (if friendUserId = [] \<or> rid = [] \<or> game = []
      then (s, Err ''friendUserId, roomId and gameId are required'')
      else if \<not> isOnline s friendUserId then (s, Err ''Friend is offline'')
      else if \<not> areFriends s actorId friendUserId
      then (s, Err ''User is not in your friends list'')
      else
        case rooms s rid of
          None \<Rightarrow> (s, Err ''Room not found'')
        | Some room \<Rightarrow>
            if hostUserId room \<noteq> actorId then (s, Err ''Only host can send room invites'')
            else if actorId \<notin> set (members room) then (s, Err ''You are not in the room'')
            else (case getUserById (users s) actorId of
                    None \<Rightarrow> (s, Err ''Sender not found'')
                  | Some fromUser \<Rightarrow>
                      (s\<lparr>invites := (invites s)(uuid e \<mapsto>
                           \<lparr>inviteId = uuid e, fromUserId = actorId, toUserId = friendUserId,
                            inviteRoomId = rid, inviteGameId = game,
                            inviteCreatedAt = now e\<rparr>)\<rparr>,
                       Ok (PInviteId (uuid e)))))"

definition invite_respond :: "server \<Rightarrow> string \<Rightarrow> string \<Rightarrow> bool \<Rightarrow> server \<times> reply" where
  "invite_respond s actorId iid accept =
     (case invites s iid of
        None \<Rightarrow> (s, Err ''Invite not found'')
      | Some invite \<Rightarrow>
          if toUserId invite \<noteq> actorId then (s, Err ''Invite does not belong to user'')
          else
            let s1 = s\<lparr>invites := (invites s)(iid := None)\<rparr> in
            if \<not> accept then (s1, Ok PDeclined)
            else
              (case rooms s1 (inviteRoomId invite) of
                 None \<Rightarrow> (s1, Err ''Room no longer exists'')
               | Some room \<Rightarrow>
                   if isStream room \<and> actorId \<notin> set (members room)
                      \<and> 2 \<le> length (members room)
                   then (s1, Err ''Streaming room is full'')
                   else if locked room \<and> actorId \<notin> set (members room)
                   then (s1, Err ''Room is locked'')
                   else
                     let room1 = (if actorId \<notin> set (members room)
                                  then room\<lparr>members := members room @ [actorId]\<rparr>
                                  else room)
                     in (s1\<lparr>rooms := (rooms s1)(inviteRoomId invite \<mapsto> room1)\<rparr>,
                         Ok (PRoomId (roomId room1)))))"

section \<open>The dispatcher and the connection's life\<close>

text \<open>
  \<open>dispatch\<close> is the chain of \<open>if (msg.type === ...)\<close> tests after the actor is known;
  \<open>handle\<close> is the whole \<open>message\<close> callback for a parsed envelope: \<open>auth\<close> comes
  before the actor is looked up, so \<open>dispatch\<close> never sees it (its first equation only
  makes the function total). A new room's id is \<open>uuidv4().slice(0, 8).toUpperCase()\<close>,
  here the first eight characters of \<open>uuid\<close>, already in upper case. Writing the users
  file (\<open>saveUsers\<close>) has no place in the model: the file is read once, at start.
\<close>

fun dispatch :: "(string \<Rightarrow> string) \<Rightarrow> server \<Rightarrow> string \<Rightarrow> request \<Rightarrow> env \<Rightarrow> server \<times> reply" where
  "dispatch up s a (Auth uid name code av) e = (s, Err ''Unknown type: auth'')"
| "dispatch up s a FriendsList e = friends_list s a"
| "dispatch up s a (FriendsAdd code) e = friends_add up s a code"
| "dispatch up s a (RoomCreate game) e = room_create s a game (take 8 (uuid e))"
| "dispatch up s a (RoomJoin rid sp) e = room_join s a rid sp"
| "dispatch up s a (RoomState rid) e = room_state s a rid"
| "dispatch up s a (RoomChatHistory rid) e = room_chat_history s a rid"
| "dispatch up s a (RoomChatSend rid txt) e = fst (room_chat_send s a rid txt e)"
| "dispatch up s a (RoomReady rid r) e = room_ready s a rid r"
| "dispatch up s a (RoomLock rid l) e = room_lock s a rid l"
| "dispatch up s a (RoomKick rid t) e = room_kick s a rid t"
| "dispatch up s a (RoomTransferHost rid t) e = room_transferHost s a rid t"
| "dispatch up s a (NetplayStart rid game gname plat emu hash proto core rom) e =
     netplay_start s a rid game gname plat emu hash proto core rom e"
| "dispatch up s a (StreamStart rid game gname plat) e = stream_start s a rid game gname plat e"
| "dispatch up s a (NetplayInput rid frame state) e = netplay_input s a rid frame state e"
| "dispatch up s a (StreamSignal rid t ok) e = stream_signal s a rid t ok e"
| "dispatch up s a (StreamInput rid state) e = stream_input s a rid state e"
| "dispatch up s a (RoomPause rid p) e = room_pause s a rid p e"
| "dispatch up s a (RoomClose rid) e = room_close s a rid"
| "dispatch up s a (InviteSend f rid game) e = invite_send s a f rid game e"
| "dispatch up s a (InviteRespond iid acc) e = invite_respond s a iid acc"
| "dispatch up s a (UnknownType t) e = (s, Err (''Unknown type: '' @ t))"

definition handle :: "(string \<Rightarrow> string) \<Rightarrow> server \<Rightarrow> nat \<Rightarrow> request \<Rightarrow> env \<Rightarrow> server \<times> reply" where
  "handle up s ws req e =
     (case req of
        Auth uid name code av \<Rightarrow> auth s ws uid name code av
      | _ \<Rightarrow>
          (case socketUser s ws of
             None \<Rightarrow> (s, Err ''Not authenticated'')
           | Some actorId \<Rightarrow>
               if actorId = [] then (s, Err ''Not authenticated'')
               else dispatch up s actorId req e))"

text \<open>The \<open>close\<close> callback of a socket.\<close>

definition disconnect :: "server \<Rightarrow> nat \<Rightarrow> server" where
  "disconnect s ws =
     (let s1 = dropSocketUser s ws in
      case socketUser s ws of
        None \<Rightarrow> s1
      | Some uid \<Rightarrow> if uid = [] then s1 else removeUserFromRooms s1 uid)"

text \<open>
  The server's life: it starts with the users read from the file and empty registries,
  and then takes messages and closed sockets one at a time.
\<close>

datatype input = Message nat request env | Closed nat

definition initial :: "UserRecord list \<Rightarrow> server" where
  "initial us = \<lparr>users = us, socketsByUserId = Map.empty, socketUser = Map.empty,
                 rooms = Map.empty, invites = Map.empty\<rparr>"

fun step :: "(string \<Rightarrow> string) \<Rightarrow> server \<Rightarrow> input \<Rightarrow> server" where
  "step up s (Message ws req e) = fst (handle up s ws req e)"
| "step up s (Closed ws) = disconnect s ws"

definition run :: "(string \<Rightarrow> string) \<Rightarrow> server \<Rightarrow> input list \<Rightarrow> server" where
  "run up s ins = foldl (step up) s ins"

section \<open>The lockstep loop of the NES view\<close>

text \<open>
  The netplay effect of \<open>App.tsx\<close> keeps its frame counters, the two input buffers
  (\<open>Map<number, number>\<close>) and the masks last applied in local variables; \<open>engine\<close>
  is that closure. Frame numbers and masks are integers (the server forwards only finite
  numbers, and a peer sends its own frame counter). The emulator is seen through the
  calls made on it: \<open>calls\<close> lists them in order, and \<open>Frame f\<close> is \<open>nes.frame()\<close>
  called while \<open>currentFrame\<close> was \<open>f\<close>. \<open>sent\<close> lists the
  \<open>sendNetplayInput(roomId, frame, state)\<close> calls. The key handlers, which only set and
  clear bits of \<open>localInputState\<close>, are not modelled: what is proved of a tick holds for
  every value of it.
\<close>

unbundle bit_operations_syntax

datatype button =
    BUTTON_UP | BUTTON_DOWN | BUTTON_LEFT | BUTTON_RIGHT
  | BUTTON_A | BUTTON_B | BUTTON_START | BUTTON_SELECT

datatype emuCall = ButtonDown nat button | ButtonUp nat button | Frame int

record config =
  isLockstepNetplay :: bool
  isStreamHost :: bool
  localPlayer :: nat
  remotePlayer :: nat
  netplayRoomId :: string
  localUserId :: string

record engine =
  localInputState :: int
  previousLocalAppliedState :: int
  previousRemoteAppliedState :: int
  currentFrame :: int
  plannedLocalFrame :: int
  localStateByFrame :: "int \<rightharpoonup> int"
  remoteStateByFrame :: "int \<rightharpoonup> int"
  remoteStreamInputState :: int
  calls :: "emuCall list"
  sent :: "(int \<times> int) list"


definition bitToButton :: "(int \<times> button) list" where
  "bitToButton =
     [(1, BUTTON_UP), (2, BUTTON_DOWN), (4, BUTTON_LEFT), (8, BUTTON_RIGHT),
      (16, BUTTON_A), (32, BUTTON_B), (64, BUTTON_START), (128, BUTTON_SELECT)]"

text \<open>
  \<open>applyMaskToPlayer\<close> presses and releases the buttons whose bit changed and returns
  \<open>nextMask\<close>; here it is the list of those calls, and the caller stores the mask.
\<close>

fun maskCalls :: "nat \<Rightarrow> int \<Rightarrow> int \<Rightarrow> (int \<times> button) list \<Rightarrow> emuCall list" where
  "maskCalls player previousMask nextMask [] = []"
| "maskCalls player previousMask nextMask ((itemBit, itemButton) # items) =
     (let wasDown = (previousMask AND itemBit \<noteq> 0);
          isDown = (nextMask AND itemBit \<noteq> 0)
      in (if wasDown = isDown then []
          else if isDown then [ButtonDown player itemButton]
          else [ButtonUp player itemButton])
         @ maskCalls player previousMask nextMask items)"

definition applyMaskToPlayer :: "nat \<Rightarrow> int \<Rightarrow> int \<Rightarrow> emuCall list" where
  "applyMaskToPlayer player previousMask nextMask =
     maskCalls player previousMask nextMask bitToButton"





text \<open>
  The second \<open>while\<close>: at most two frames a tick, and \<open>break\<close> as soon as a buffer
  has no entry for \<open>currentFrame\<close>. \<open>simulateFrame\<close> is the rest of its body.
\<close>

definition simulateFrame :: "config \<Rightarrow> engine \<Rightarrow> int \<Rightarrow> int \<Rightarrow> engine" where
  "simulateFrame cfg e localFrameState remoteFrameState =
     e\<lparr>previousLocalAppliedState := localFrameState,
       previousRemoteAppliedState := remoteFrameState,
       calls := calls e
         @ applyMaskToPlayer (localPlayer cfg) (previousLocalAppliedState e) localFrameState
         @ applyMaskToPlayer (remotePlayer cfg) (previousRemoteAppliedState e) remoteFrameState
         @ [Frame (currentFrame e)],
       currentFrame := currentFrame e + 1\<rparr>"

function stepFrames :: "config \<Rightarrow> nat \<Rightarrow> engine \<Rightarrow> engine" where
  "stepFrames cfg steps e =
     (if steps < 2
      then (case localStateByFrame e (currentFrame e) of
              None \<Rightarrow> e
            | Some localFrameState \<Rightarrow>
                (case remoteStateByFrame e (currentFrame e) of
                   None \<Rightarrow> e
                 | Some remoteFrameState \<Rightarrow>
                     stepFrames cfg (steps + 1)
                       (simulateFrame cfg e localFrameState remoteFrameState)))
      else e)"
  by pat_completeness auto
termination
  by (relation "measure (\<lambda>(cfg, steps, e). 2 - steps)") auto

text \<open>The pruning at the end of a lockstep tick.\<close>

definition pruneBuffers :: "engine \<Rightarrow> engine" where
  "pruneBuffers e =
     (if currentFrame e mod 120 = 0
      then
        let minFrameToKeep = max 0 (currentFrame e - 180) in
        e\<lparr>localStateByFrame :=
              (\<lambda>key. if key < minFrameToKeep then None else localStateByFrame e key),
          remoteStateByFrame :=
              (\<lambda>key. if key < minFrameToKeep then None else remoteStateByFrame e key)\<rparr>
      else e)"



section \<open>The input loop of the SNES view\<close>








section \<open>Room invariants\<close>

definition everyRoom :: "(RoomRecord \<Rightarrow> bool) \<Rightarrow> server \<Rightarrow> bool" where
  "everyRoom P s \<longleftrightarrow> (\<forall>rid room. rooms s rid = Some room \<longrightarrow> P room)"

definition hostInMembers :: "RoomRecord \<Rightarrow> bool" where
  "hostInMembers room \<longleftrightarrow> hostUserId room \<in> set (members room)"

definition chatBounded :: "RoomRecord \<Rightarrow> bool" where
  "chatBounded room \<longleftrightarrow> length (chat room) \<le> 200"

definition readyAreMembers :: "RoomRecord \<Rightarrow> bool" where
  "readyAreMembers room \<longleftrightarrow> set (readyByUserId room) \<subseteq> set (members room)"

definition noReadySpectator :: "RoomRecord \<Rightarrow> bool" where
  "noReadySpectator room \<longleftrightarrow> set (spectators room) \<inter> set (readyByUserId room) = {}"

section \<open>Concrete inputs\<close>

text \<open>The states and requests at which the properties below are evaluated.\<close>

definition plainEnv :: env where
  "plainEnv = \<lparr>uuid = ''x'', now = ''t'', hasRequestId = True\<rparr>"


text \<open>
  A session of three users: \<open>u1\<close> opens a room, \<open>u2\<close> joins, \<open>u1\<close> starts a stream,
  and \<open>u2\<close>'s socket closes. \<open>u3\<close> is \<open>u1\<close>'s friend and is invited.
\<close>

definition roomEnv :: env where
  "roomEnv = \<lparr>uuid = ''3F2A9C10-aaaa'', now = ''t0'', hasRequestId = True\<rparr>"

definition inviteEnv :: env where
  "inviteEnv = \<lparr>uuid = ''invite-1'', now = ''t1'', hasRequestId = True\<rparr>"

definition streamLeft :: "input list" where
  "streamLeft =
     [Message 1 (Auth ''u1'' ''Ann'' ''AAAA1111'' []) plainEnv,
      Message 2 (Auth ''u2'' ''Bob'' ''BBBB2222'' []) plainEnv,
      Message 3 (Auth ''u3'' ''Cid'' ''CCCC3333'' []) plainEnv,
      Message 1 (FriendsAdd ''CCCC3333'') plainEnv,
      Message 1 (RoomCreate ''smb'') roomEnv,
      Message 2 (RoomJoin ''3F2A9C10'' False) plainEnv,
      Message 1 (StreamStart ''3F2A9C10'' ''smb'' ''Mario'' ''NES'') plainEnv,
      Closed 2,
      Message 1 (InviteSend ''u3'' ''3F2A9C10'' ''smb'') inviteEnv]"

text \<open>The invite that session ends with.\<close>

definition theInvite :: InviteRecord where
  "theInvite = \<lparr>inviteId = ''invite-1'', fromUserId = ''u1'', toUserId = ''u3'',
     inviteRoomId = ''3F2A9C10'', inviteGameId = ''smb'', inviteCreatedAt = ''t1''\<rparr>"

text \<open>
  A lobby: \<open>u1\<close> opens a room, \<open>u2\<close> joins to play and \<open>u3\<close> joins to watch;
  \<open>lobbyRoom\<close> is the room they are then in.
\<close>

definition lobby :: "input list" where
  "lobby =
     [Message 1 (Auth ''u1'' ''Ann'' ''AAAA1111'' []) plainEnv,
      Message 2 (Auth ''u2'' ''Bob'' ''BBBB2222'' []) plainEnv,
      Message 3 (Auth ''u3'' ''Cid'' ''CCCC3333'' []) plainEnv,
      Message 1 (RoomCreate ''smb'') roomEnv,
      Message 2 (RoomJoin ''3F2A9C10'' False) plainEnv,
      Message 3 (RoomJoin ''3F2A9C10'' True) plainEnv]"

definition lobbyRoom :: RoomRecord where
  "lobbyRoom = \<lparr>roomId = ''3F2A9C10'', hostUserId = ''u1'', gameId = ''smb'',
     members = [''u1'', ''u2'', ''u3''], spectators = [''u3''], locked = False,
     readyByUserId = [], chat = [], session = None\<rparr>"

text \<open>A room's owner marks themself ready and then joins their own room as a spectator.\<close>

definition readyThenSpectate :: "input list" where
  "readyThenSpectate =
     [Message 1 (Auth ''u1'' ''Ann'' ''AAAA1111'' []) plainEnv,
      Message 1 (RoomCreate ''smb'') roomEnv,
      Message 1 (RoomReady ''3F2A9C10'' True) plainEnv,
      Message 1 (RoomJoin ''3F2A9C10'' True) plainEnv]"

text \<open>The first two scenario users, as \<open>auth\<close> files them.\<close>

definition ann :: UserRecord where
  "ann = \<lparr>userId = ''u1'', displayName = ''Ann'', friendCode = ''AAAA1111'', friends = [],
           avatarDataUrl = None\<rparr>"

definition cid :: UserRecord where
  "cid = \<lparr>userId = ''u3'', displayName = ''Cid'', friendCode = ''CCCC3333'', friends = [],
           avatarDataUrl = None\<rparr>"

definition hostLeaves :: "input list" where
  "hostLeaves =
     [Message 1 (Auth ''u1'' ''Ann'' ''AAAA1111'' []) plainEnv,
      Message 2 (Auth ''u2'' ''Bob'' ''BBBB2222'' []) plainEnv,
      Message 1 (RoomCreate ''smb'') roomEnv,
      Message 2 (RoomJoin ''3F2A9C10'' False) plainEnv,
      Closed 1]"

definition longText :: jstext where
  "longText = replicate 450 0x61"



section \<open>The lockstep gate\<close>

declare stepFrames.simps [simp del]





lemma stepFrames_stop:
  "localStateByFrame e (currentFrame e) = None \<or> remoteStateByFrame e (currentFrame e) = None
   \<Longrightarrow> stepFrames cfg steps e = e"
  by (subst stepFrames.simps) (auto split: option.splits)

lemma stepFrames_done: "\<not> steps < 2 \<Longrightarrow> stepFrames cfg steps e = e"
  by (subst stepFrames.simps) simp

lemma stepFrames_go:
  "steps < 2 \<Longrightarrow> localStateByFrame e (currentFrame e) = Some l
   \<Longrightarrow> remoteStateByFrame e (currentFrame e) = Some r
   \<Longrightarrow> stepFrames cfg steps e = stepFrames cfg (steps + 1) (simulateFrame cfg e l r)"
  by (subst stepFrames.simps) simp

lemma stepFrames_cases:
  obtains (finished) "\<not> steps < 2" "stepFrames cfg steps e = e"
  | (stalled) "steps < 2" "stepFrames cfg steps e = e"
      "localStateByFrame e (currentFrame e) = None \<or> remoteStateByFrame e (currentFrame e) = None"
  | (advance) l r where "steps < 2" "localStateByFrame e (currentFrame e) = Some l"
      "remoteStateByFrame e (currentFrame e) = Some r"
      "stepFrames cfg steps e = stepFrames cfg (steps + 1) (simulateFrame cfg e l r)"
proof (cases "steps < 2")
  case False
  then show ?thesis using finished stepFrames_done by blast
next
  case True
  show ?thesis
  proof (cases "localStateByFrame e (currentFrame e)")
    case None
    then show ?thesis using stalled [OF True] stepFrames_stop by blast
  next
    case (Some l)
    note l = Some
    show ?thesis
    proof (cases "remoteStateByFrame e (currentFrame e)")
      case None
      then show ?thesis using stalled [OF True] stepFrames_stop by blast
    next
      case (Some r)
      then show ?thesis using advance [OF True l Some] stepFrames_go [OF True l Some] by blast
    qed
  qed
qed

lemma stepFrames_buffers:
  "localStateByFrame (stepFrames cfg steps e) = localStateByFrame e
   \<and> remoteStateByFrame (stepFrames cfg steps e) = remoteStateByFrame e"
proof (induction cfg steps e rule: stepFrames.induct)
  case (1 cfg steps e)
  show ?case
  proof (cases rule: stepFrames_cases [of steps cfg e])
    case (advance l r)
    with "1.IH" [OF advance(1,2,3)] show ?thesis by (simp add: simulateFrame_def)
  qed simp_all
qed





lemma pruneBuffers_recent:
  "currentFrame e - 180 \<le> f \<Longrightarrow> 0 \<le> f
   \<Longrightarrow> localStateByFrame (pruneBuffers e) f = localStateByFrame e f
     \<and> remoteStateByFrame (pruneBuffers e) f = remoteStateByFrame e f"
  by (auto simp: pruneBuffers_def Let_def max_def)




section \<open>What every handler keeps\<close>

text \<open>
  Three properties of a room are kept by every handler and by a closing socket, and so
  hold in every state the server reaches: the host is a member, the ready users are
  members, and the chat log holds at most 200 messages.
\<close>

lemma auth_host:
  "everyRoom hostInMembers s \<Longrightarrow> everyRoom hostInMembers (fst (auth s ws uid name code av))"
  unfolding everyRoom_def hostInMembers_def auth_def setSocketUser_def
  by (auto simp: Let_def split: option.splits if_splits)

lemma friends_list_host:
  "everyRoom hostInMembers s \<Longrightarrow> everyRoom hostInMembers (fst (friends_list s a))"
  unfolding everyRoom_def hostInMembers_def friends_list_def
  by (auto simp: Let_def split: option.splits if_splits)

lemma friends_add_host:
  "everyRoom hostInMembers s \<Longrightarrow> everyRoom hostInMembers (fst (friends_add up s a code))"
  unfolding everyRoom_def hostInMembers_def friends_add_def
  by (auto simp: Let_def split: option.splits if_splits)

lemma room_create_host:
  "everyRoom hostInMembers s \<Longrightarrow> everyRoom hostInMembers (fst (room_create s a game newId))"
  unfolding everyRoom_def hostInMembers_def room_create_def
  by (auto simp: Let_def split: option.splits if_splits)

lemma room_join_host:
  "everyRoom hostInMembers s \<Longrightarrow> everyRoom hostInMembers (fst (room_join s a rid sp))"
  unfolding everyRoom_def hostInMembers_def room_join_def
  by (auto simp: Let_def split: option.splits if_splits)

lemma room_state_host:
  "everyRoom hostInMembers s \<Longrightarrow> everyRoom hostInMembers (fst (room_state s a rid))"
  unfolding everyRoom_def hostInMembers_def room_state_def
  by (auto simp: Let_def split: option.splits if_splits)

lemma room_chat_history_host:
  "everyRoom hostInMembers s \<Longrightarrow> everyRoom hostInMembers (fst (room_chat_history s a rid))"
  unfolding everyRoom_def hostInMembers_def room_chat_history_def
  by (auto simp: Let_def split: option.splits if_splits)

lemma room_chat_send_host:
  "everyRoom hostInMembers s \<Longrightarrow> everyRoom hostInMembers (fst (fst (room_chat_send s a rid txt e)))"
  unfolding everyRoom_def hostInMembers_def room_chat_send_def sliceLast_def
  by (auto simp: Let_def split: option.splits if_splits)

lemma room_ready_host:
  "everyRoom hostInMembers s \<Longrightarrow> everyRoom hostInMembers (fst (room_ready s a rid rdy))"
  unfolding everyRoom_def hostInMembers_def room_ready_def
  by (auto simp: Let_def split: option.splits if_splits)

lemma room_lock_host:
  "everyRoom hostInMembers s \<Longrightarrow> everyRoom hostInMembers (fst (room_lock s a rid lck))"
  unfolding everyRoom_def hostInMembers_def room_lock_def
  by (auto simp: Let_def split: option.splits if_splits)

lemma room_kick_host:
  "everyRoom hostInMembers s \<Longrightarrow> everyRoom hostInMembers (fst (room_kick s a rid target))"
  unfolding everyRoom_def hostInMembers_def room_kick_def
  by (auto simp: Let_def split: option.splits if_splits)

lemma room_transferHost_host:
  "everyRoom hostInMembers s \<Longrightarrow> everyRoom hostInMembers (fst (room_transferHost s a rid target))"
  unfolding everyRoom_def hostInMembers_def room_transferHost_def
  by (auto simp: Let_def split: option.splits if_splits)

lemma netplay_start_host:
  "everyRoom hostInMembers s \<Longrightarrow> everyRoom hostInMembers (fst (netplay_start s a rid game gname plat emu hash proto core rom e))"
  unfolding everyRoom_def hostInMembers_def netplay_start_def
  by (auto simp: Let_def split: option.splits if_splits)

lemma stream_start_host:
  "everyRoom hostInMembers s \<Longrightarrow> everyRoom hostInMembers (fst (stream_start s a rid game gname plat e))"
  unfolding everyRoom_def hostInMembers_def stream_start_def
  by (auto simp: Let_def split: option.splits if_splits)

lemma netplay_input_host:
  "everyRoom hostInMembers s \<Longrightarrow> everyRoom hostInMembers (fst (netplay_input s a rid frame state e))"
  unfolding everyRoom_def hostInMembers_def netplay_input_def
  by (auto simp: Let_def split: option.splits if_splits)

lemma stream_signal_host:
  "everyRoom hostInMembers s \<Longrightarrow> everyRoom hostInMembers (fst (stream_signal s a rid target sigOk e))"
  unfolding everyRoom_def hostInMembers_def stream_signal_def
  by (auto simp: Let_def split: option.splits if_splits)

lemma stream_input_host:
  "everyRoom hostInMembers s \<Longrightarrow> everyRoom hostInMembers (fst (stream_input s a rid state e))"
  unfolding everyRoom_def hostInMembers_def stream_input_def
  by (auto simp: Let_def split: option.splits if_splits)

lemma room_pause_host:
  "everyRoom hostInMembers s \<Longrightarrow> everyRoom hostInMembers (fst (room_pause s a rid paused e))"
  unfolding everyRoom_def hostInMembers_def room_pause_def
  by (auto simp: Let_def split: option.splits if_splits)

lemma room_close_host:
  "everyRoom hostInMembers s \<Longrightarrow> everyRoom hostInMembers (fst (room_close s a rid))"
  unfolding everyRoom_def hostInMembers_def room_close_def
  by (auto simp: Let_def split: option.splits if_splits)

lemma invite_send_host:
  "everyRoom hostInMembers s \<Longrightarrow> everyRoom hostInMembers (fst (invite_send s a friend rid game e))"
  unfolding everyRoom_def hostInMembers_def invite_send_def
  by (auto simp: Let_def split: option.splits if_splits)

lemma invite_respond_host:
  "everyRoom hostInMembers s \<Longrightarrow> everyRoom hostInMembers (fst (invite_respond s a iid acc))"
  unfolding everyRoom_def hostInMembers_def invite_respond_def
  by (auto simp: Let_def split: option.splits if_splits)

lemma auth_chat:
  "everyRoom chatBounded s \<Longrightarrow> everyRoom chatBounded (fst (auth s ws uid name code av))"
  unfolding everyRoom_def chatBounded_def auth_def setSocketUser_def
  by (auto simp: Let_def split: option.splits if_splits)

lemma friends_list_chat:
  "everyRoom chatBounded s \<Longrightarrow> everyRoom chatBounded (fst (friends_list s a))"
  unfolding everyRoom_def chatBounded_def friends_list_def
  by (auto simp: Let_def split: option.splits if_splits)

lemma friends_add_chat:
  "everyRoom chatBounded s \<Longrightarrow> everyRoom chatBounded (fst (friends_add up s a code))"
  unfolding everyRoom_def chatBounded_def friends_add_def
  by (auto simp: Let_def split: option.splits if_splits)

lemma room_create_chat:
  "everyRoom chatBounded s \<Longrightarrow> everyRoom chatBounded (fst (room_create s a game newId))"
  unfolding everyRoom_def chatBounded_def room_create_def
  by (auto simp: Let_def split: option.splits if_splits)

lemma room_join_chat:
  "everyRoom chatBounded s \<Longrightarrow> everyRoom chatBounded (fst (room_join s a rid sp))"
  unfolding everyRoom_def chatBounded_def room_join_def
  by (auto simp: Let_def split: option.splits if_splits)

lemma room_state_chat:
  "everyRoom chatBounded s \<Longrightarrow> everyRoom chatBounded (fst (room_state s a rid))"
  unfolding everyRoom_def chatBounded_def room_state_def
  by (auto simp: Let_def split: option.splits if_splits)

lemma room_chat_history_chat:
  "everyRoom chatBounded s \<Longrightarrow> everyRoom chatBounded (fst (room_chat_history s a rid))"
  unfolding everyRoom_def chatBounded_def room_chat_history_def
  by (auto simp: Let_def split: option.splits if_splits)

lemma room_chat_send_chat:
  "everyRoom chatBounded s \<Longrightarrow> everyRoom chatBounded (fst (fst (room_chat_send s a rid txt e)))"
  unfolding everyRoom_def chatBounded_def room_chat_send_def sliceLast_def
  by (auto simp: Let_def split: option.splits if_splits)

lemma room_ready_chat:
  "everyRoom chatBounded s \<Longrightarrow> everyRoom chatBounded (fst (room_ready s a rid rdy))"
  unfolding everyRoom_def chatBounded_def room_ready_def
  by (auto simp: Let_def split: option.splits if_splits)

lemma room_lock_chat:
  "everyRoom chatBounded s \<Longrightarrow> everyRoom chatBounded (fst (room_lock s a rid lck))"
  unfolding everyRoom_def chatBounded_def room_lock_def
  by (auto simp: Let_def split: option.splits if_splits)

lemma room_kick_chat:
  "everyRoom chatBounded s \<Longrightarrow> everyRoom chatBounded (fst (room_kick s a rid target))"
  unfolding everyRoom_def chatBounded_def room_kick_def
  by (auto simp: Let_def split: option.splits if_splits)

lemma room_transferHost_chat:
  "everyRoom chatBounded s \<Longrightarrow> everyRoom chatBounded (fst (room_transferHost s a rid target))"
  unfolding everyRoom_def chatBounded_def room_transferHost_def
  by (auto simp: Let_def split: option.splits if_splits)

lemma netplay_start_chat:
  "everyRoom chatBounded s \<Longrightarrow> everyRoom chatBounded (fst (netplay_start s a rid game gname plat emu hash proto core rom e))"
  unfolding everyRoom_def chatBounded_def netplay_start_def
  by (auto simp: Let_def split: option.splits if_splits)

lemma stream_start_chat:
  "everyRoom chatBounded s \<Longrightarrow> everyRoom chatBounded (fst (stream_start s a rid game gname plat e))"
  unfolding everyRoom_def chatBounded_def stream_start_def
  by (auto simp: Let_def split: option.splits if_splits)

lemma netplay_input_chat:
  "everyRoom chatBounded s \<Longrightarrow> everyRoom chatBounded (fst (netplay_input s a rid frame state e))"
  unfolding everyRoom_def chatBounded_def netplay_input_def
  by (auto simp: Let_def split: option.splits if_splits)

lemma stream_signal_chat:
  "everyRoom chatBounded s \<Longrightarrow> everyRoom chatBounded (fst (stream_signal s a rid target sigOk e))"
  unfolding everyRoom_def chatBounded_def stream_signal_def
  by (auto simp: Let_def split: option.splits if_splits)

lemma stream_input_chat:
  "everyRoom chatBounded s \<Longrightarrow> everyRoom chatBounded (fst (stream_input s a rid state e))"
  unfolding everyRoom_def chatBounded_def stream_input_def
  by (auto simp: Let_def split: option.splits if_splits)

lemma room_pause_chat:
  "everyRoom chatBounded s \<Longrightarrow> everyRoom chatBounded (fst (room_pause s a rid paused e))"
  unfolding everyRoom_def chatBounded_def room_pause_def
  by (auto simp: Let_def split: option.splits if_splits)

lemma room_close_chat:
  "everyRoom chatBounded s \<Longrightarrow> everyRoom chatBounded (fst (room_close s a rid))"
  unfolding everyRoom_def chatBounded_def room_close_def
  by (auto simp: Let_def split: option.splits if_splits)

lemma invite_send_chat:
  "everyRoom chatBounded s \<Longrightarrow> everyRoom chatBounded (fst (invite_send s a friend rid game e))"
  unfolding everyRoom_def chatBounded_def invite_send_def
  by (auto simp: Let_def split: option.splits if_splits)

lemma invite_respond_chat:
  "everyRoom chatBounded s \<Longrightarrow> everyRoom chatBounded (fst (invite_respond s a iid acc))"
  unfolding everyRoom_def chatBounded_def invite_respond_def
  by (auto simp: Let_def split: option.splits if_splits)

lemma auth_ready:
  "everyRoom readyAreMembers s \<Longrightarrow> everyRoom readyAreMembers (fst (auth s ws uid name code av))"
  unfolding everyRoom_def readyAreMembers_def auth_def setSocketUser_def
  by (auto simp: Let_def split: option.splits if_splits)

lemma friends_list_ready:
  "everyRoom readyAreMembers s \<Longrightarrow> everyRoom readyAreMembers (fst (friends_list s a))"
  unfolding everyRoom_def readyAreMembers_def friends_list_def
  by (auto simp: Let_def split: option.splits if_splits)

lemma friends_add_ready:
  "everyRoom readyAreMembers s \<Longrightarrow> everyRoom readyAreMembers (fst (friends_add up s a code))"
  unfolding everyRoom_def readyAreMembers_def friends_add_def
  by (auto simp: Let_def split: option.splits if_splits)

lemma room_create_ready:
  "everyRoom readyAreMembers s \<Longrightarrow> everyRoom readyAreMembers (fst (room_create s a game newId))"
  unfolding everyRoom_def readyAreMembers_def room_create_def
  by (auto simp: Let_def split: option.splits if_splits)

lemma room_join_ready:
  "everyRoom readyAreMembers s \<Longrightarrow> everyRoom readyAreMembers (fst (room_join s a rid sp))"
  unfolding everyRoom_def readyAreMembers_def room_join_def
  by (auto simp: Let_def split: option.splits if_splits)

lemma room_state_ready:
  "everyRoom readyAreMembers s \<Longrightarrow> everyRoom readyAreMembers (fst (room_state s a rid))"
  unfolding everyRoom_def readyAreMembers_def room_state_def
  by (auto simp: Let_def split: option.splits if_splits)

lemma room_chat_history_ready:
  "everyRoom readyAreMembers s \<Longrightarrow> everyRoom readyAreMembers (fst (room_chat_history s a rid))"
  unfolding everyRoom_def readyAreMembers_def room_chat_history_def
  by (auto simp: Let_def split: option.splits if_splits)

lemma room_chat_send_ready:
  "everyRoom readyAreMembers s \<Longrightarrow> everyRoom readyAreMembers (fst (fst (room_chat_send s a rid txt e)))"
  unfolding everyRoom_def readyAreMembers_def room_chat_send_def sliceLast_def
  by (auto simp: Let_def split: option.splits if_splits)

lemma room_ready_ready:
  "everyRoom readyAreMembers s \<Longrightarrow> everyRoom readyAreMembers (fst (room_ready s a rid rdy))"
  unfolding everyRoom_def readyAreMembers_def room_ready_def
  by (auto simp: Let_def split: option.splits if_splits)

lemma room_lock_ready:
  "everyRoom readyAreMembers s \<Longrightarrow> everyRoom readyAreMembers (fst (room_lock s a rid lck))"
  unfolding everyRoom_def readyAreMembers_def room_lock_def
  by (auto simp: Let_def split: option.splits if_splits)

lemma room_kick_ready:
  "everyRoom readyAreMembers s \<Longrightarrow> everyRoom readyAreMembers (fst (room_kick s a rid target))"
  unfolding everyRoom_def readyAreMembers_def room_kick_def
  by (auto simp: Let_def split: option.splits if_splits)

lemma room_transferHost_ready:
  "everyRoom readyAreMembers s \<Longrightarrow> everyRoom readyAreMembers (fst (room_transferHost s a rid target))"
  unfolding everyRoom_def readyAreMembers_def room_transferHost_def
  by (auto simp: Let_def split: option.splits if_splits)

lemma netplay_start_ready:
  "everyRoom readyAreMembers s \<Longrightarrow> everyRoom readyAreMembers (fst (netplay_start s a rid game gname plat emu hash proto core rom e))"
  unfolding everyRoom_def readyAreMembers_def netplay_start_def
  by (auto simp: Let_def split: option.splits if_splits)

lemma stream_start_ready:
  "everyRoom readyAreMembers s \<Longrightarrow> everyRoom readyAreMembers (fst (stream_start s a rid game gname plat e))"
  unfolding everyRoom_def readyAreMembers_def stream_start_def
  by (auto simp: Let_def split: option.splits if_splits)

lemma netplay_input_ready:
  "everyRoom readyAreMembers s \<Longrightarrow> everyRoom readyAreMembers (fst (netplay_input s a rid frame state e))"
  unfolding everyRoom_def readyAreMembers_def netplay_input_def
  by (auto simp: Let_def split: option.splits if_splits)

lemma stream_signal_ready:
  "everyRoom readyAreMembers s \<Longrightarrow> everyRoom readyAreMembers (fst (stream_signal s a rid target sigOk e))"
  unfolding everyRoom_def readyAreMembers_def stream_signal_def
  by (auto simp: Let_def split: option.splits if_splits)

lemma stream_input_ready:
  "everyRoom readyAreMembers s \<Longrightarrow> everyRoom readyAreMembers (fst (stream_input s a rid state e))"
  unfolding everyRoom_def readyAreMembers_def stream_input_def
  by (auto simp: Let_def split: option.splits if_splits)

lemma room_pause_ready:
  "everyRoom readyAreMembers s \<Longrightarrow> everyRoom readyAreMembers (fst (room_pause s a rid paused e))"
  unfolding everyRoom_def readyAreMembers_def room_pause_def
  by (auto simp: Let_def split: option.splits if_splits)

lemma room_close_ready:
  "everyRoom readyAreMembers s \<Longrightarrow> everyRoom readyAreMembers (fst (room_close s a rid))"
  unfolding everyRoom_def readyAreMembers_def room_close_def
  by (auto simp: Let_def split: option.splits if_splits)

lemma invite_send_ready:
  "everyRoom readyAreMembers s \<Longrightarrow> everyRoom readyAreMembers (fst (invite_send s a friend rid game e))"
  unfolding everyRoom_def readyAreMembers_def invite_send_def
  by (auto simp: Let_def split: option.splits if_splits)

lemma invite_respond_ready:
  "everyRoom readyAreMembers s \<Longrightarrow> everyRoom readyAreMembers (fst (invite_respond s a iid acc))"
  unfolding everyRoom_def readyAreMembers_def invite_respond_def
  by (auto simp: Let_def split: option.splits if_splits)


lemma leaveRoom_result:
  "leaveRoom uid room = Some room' \<Longrightarrow>
     members room' = filter (\<lambda>i. i \<noteq> uid) (members room)
     \<and> chat room' = chat room
     \<and> readyByUserId room' = filter (\<lambda>i. i \<in> set (members room')) (readyByUserId room)
     \<and> spectators room' = filter (\<lambda>i. i \<noteq> uid) (spectators room)"
  by (auto simp: leaveRoom_def Let_def split: list.splits)

lemma leaveRoom_failover:
  "leaveRoom uid room = Some room' \<Longrightarrow> hostUserId room = uid
   \<Longrightarrow> members room' \<noteq> [] \<and> hostUserId room' = hd (members room')"
  by (auto simp: leaveRoom_def Let_def split: list.splits)

lemma leaveRoom_host_stays:
  "leaveRoom uid room = Some room' \<Longrightarrow> hostUserId room \<noteq> uid
   \<Longrightarrow> hostUserId room' = hostUserId room"
  by (auto simp: leaveRoom_def Let_def split: list.splits)

lemma leaveRoom_host:
  assumes "hostInMembers room" and "leaveRoom uid room = Some room'"
  shows "hostInMembers room'"
proof (cases "hostUserId room = uid")
  case True
  from leaveRoom_failover [OF assms(2) True]
  show ?thesis unfolding hostInMembers_def by (metis hd_in_set)
next
  case False
  with assms(1) have "hostUserId room \<in> set (filter (\<lambda>i. i \<noteq> uid) (members room))"
    by (simp add: hostInMembers_def)
  with leaveRoom_host_stays [OF assms(2) False] leaveRoom_result [OF assms(2)]
  show ?thesis by (simp add: hostInMembers_def)
qed

lemma leaveRoom_chat:
  "chatBounded room \<Longrightarrow> leaveRoom uid room = Some room' \<Longrightarrow> chatBounded room'"
  using leaveRoom_result [of uid room room'] by (simp add: chatBounded_def)

lemma leaveRoom_ready:
  "readyAreMembers room \<Longrightarrow> leaveRoom uid room = Some room' \<Longrightarrow> readyAreMembers room'"
  using leaveRoom_result [of uid room room'] by (auto simp: readyAreMembers_def)

lemma removeUserFromRooms_every:
  assumes "\<And>room room'. P room \<Longrightarrow> leaveRoom uid room = Some room' \<Longrightarrow> P room'"
    and "everyRoom P s"
  shows "everyRoom P (removeUserFromRooms s uid)"
  using assms unfolding everyRoom_def removeUserFromRooms_def
  by (auto split: option.splits if_splits)

lemma dropSocketUser_rooms: "rooms (dropSocketUser s ws) = rooms s"
  by (simp add: dropSocketUser_def Let_def split: option.splits)

lemma disconnect_every:
  assumes "\<And>room room'. P room \<Longrightarrow> leaveRoom (the (socketUser s ws)) room = Some room' \<Longrightarrow> P room'"
    and "everyRoom P s"
  shows "everyRoom P (disconnect s ws)"
proof -
  have d: "everyRoom P (dropSocketUser s ws)"
    using assms(2) by (simp add: everyRoom_def dropSocketUser_rooms)
  show ?thesis
  proof (cases "socketUser s ws")
    case None
    with d show ?thesis by (simp add: disconnect_def Let_def)
  next
    case (Some uid)
    with assms(1) d removeUserFromRooms_every [of P uid "dropSocketUser s ws"]
    show ?thesis by (auto simp: disconnect_def Let_def)
  qed
qed

lemma disconnect_host:
  "everyRoom hostInMembers s \<Longrightarrow> everyRoom hostInMembers (disconnect s ws)"
  using disconnect_every [of hostInMembers s ws] leaveRoom_host by blast

lemma dispatch_host:
  "everyRoom hostInMembers s \<Longrightarrow> everyRoom hostInMembers (fst (dispatch up s a req e))"
  by (cases req) (simp_all add: friends_list_host friends_add_host room_create_host room_join_host room_state_host room_chat_history_host room_chat_send_host room_ready_host room_lock_host room_kick_host room_transferHost_host netplay_start_host stream_start_host netplay_input_host stream_signal_host stream_input_host room_pause_host room_close_host invite_send_host invite_respond_host)

lemma handle_host:
  "everyRoom hostInMembers s \<Longrightarrow> everyRoom hostInMembers (fst (handle up s ws req e))"
  unfolding handle_def
  by (cases req) (auto simp del: dispatch.simps simp add: auth_host dispatch_host split: option.splits)

lemma step_host:
  "everyRoom hostInMembers s \<Longrightarrow> everyRoom hostInMembers (step up s i)"
  by (cases i) (simp_all add: handle_host disconnect_host)

lemma run_host:
  "everyRoom hostInMembers s \<Longrightarrow> everyRoom hostInMembers (run up s ins)"
  unfolding run_def
  by (induction ins arbitrary: s) (simp_all add: step_host)

lemma disconnect_chat:
  "everyRoom chatBounded s \<Longrightarrow> everyRoom chatBounded (disconnect s ws)"
  using disconnect_every [of chatBounded s ws] leaveRoom_chat by blast

lemma dispatch_chat:
  "everyRoom chatBounded s \<Longrightarrow> everyRoom chatBounded (fst (dispatch up s a req e))"
  by (cases req) (simp_all add: friends_list_chat friends_add_chat room_create_chat room_join_chat room_state_chat room_chat_history_chat room_chat_send_chat room_ready_chat room_lock_chat room_kick_chat room_transferHost_chat netplay_start_chat stream_start_chat netplay_input_chat stream_signal_chat stream_input_chat room_pause_chat room_close_chat invite_send_chat invite_respond_chat)

lemma handle_chat:
  "everyRoom chatBounded s \<Longrightarrow> everyRoom chatBounded (fst (handle up s ws req e))"
  unfolding handle_def
  by (cases req) (auto simp del: dispatch.simps simp add: auth_chat dispatch_chat split: option.splits)

lemma step_chat:
  "everyRoom chatBounded s \<Longrightarrow> everyRoom chatBounded (step up s i)"
  by (cases i) (simp_all add: handle_chat disconnect_chat)

lemma run_chat:
  "everyRoom chatBounded s \<Longrightarrow> everyRoom chatBounded (run up s ins)"
  unfolding run_def
  by (induction ins arbitrary: s) (simp_all add: step_chat)

lemma disconnect_ready:
  "everyRoom readyAreMembers s \<Longrightarrow> everyRoom readyAreMembers (disconnect s ws)"
  using disconnect_every [of readyAreMembers s ws] leaveRoom_ready by blast

lemma dispatch_ready:
  "everyRoom readyAreMembers s \<Longrightarrow> everyRoom readyAreMembers (fst (dispatch up s a req e))"
  by (cases req) (simp_all add: friends_list_ready friends_add_ready room_create_ready room_join_ready room_state_ready room_chat_history_ready room_chat_send_ready room_ready_ready room_lock_ready room_kick_ready room_transferHost_ready netplay_start_ready stream_start_ready netplay_input_ready stream_signal_ready stream_input_ready room_pause_ready room_close_ready invite_send_ready invite_respond_ready)

lemma handle_ready:
  "everyRoom readyAreMembers s \<Longrightarrow> everyRoom readyAreMembers (fst (handle up s ws req e))"
  unfolding handle_def
  by (cases req) (auto simp del: dispatch.simps simp add: auth_ready dispatch_ready split: option.splits)

lemma step_ready:
  "everyRoom readyAreMembers s \<Longrightarrow> everyRoom readyAreMembers (step up s i)"
  by (cases i) (simp_all add: handle_ready disconnect_ready)

lemma run_ready:
  "everyRoom readyAreMembers s \<Longrightarrow> everyRoom readyAreMembers (run up s ins)"
  unfolding run_def
  by (induction ins arbitrary: s) (simp_all add: step_ready)

lemma initial_everyRoom: "everyRoom P (initial us)"
  by (simp add: everyRoom_def initial_def)

section \<open>The friend graph\<close>

lemma find_mutateFirst_same:
  "(\<And>x. P (f x) = P x) \<Longrightarrow> find P (mutateFirst P f xs) = map_option f (find P xs)"
  by (induction xs) auto

lemma find_mutateFirst_other:
  "(\<And>x. Q (f x) = Q x) \<Longrightarrow> find Q xs = Some q \<Longrightarrow> \<not> P q
   \<Longrightarrow> find Q (mutateFirst P f xs) = Some q"
  by (induction xs) (auto split: if_splits)

lemma find_mutateFirst_apart:
  "(\<And>x. Q (f x) = Q x) \<Longrightarrow> find Q xs = Some q \<Longrightarrow> find P xs = Some p \<Longrightarrow> \<not> Q p
   \<Longrightarrow> find Q (mutateFirst P f xs) = Some q"
  by (induction xs) (auto split: if_splits)

lemma mutateFirst_fixed:
  "(\<And>y. find P xs = Some y \<Longrightarrow> f y = y) \<Longrightarrow> mutateFirst P f xs = xs"
  by (induction xs) (auto split: if_splits)

lemma map_mutateFirst:
  "(\<And>x. g (f x) = g x) \<Longrightarrow> map g (mutateFirst P f xs) = map g xs"
  by (induction xs) auto

lemma find_member_by_key:
  "distinct (map g xs) \<Longrightarrow> x \<in> set xs \<Longrightarrow> find (\<lambda>u. g u = g x) xs = Some x"
  by (induction xs) (auto simp: image_iff)

lemma find_is_member: "find P xs = Some x \<Longrightarrow> x \<in> set xs"
  by (induction xs) (auto split: if_splits)

lemma addFriend_keeps:
  "userId (addFriend fid u) = userId u" "friendCode (addFriend fid u) = friendCode u"
  "fid \<in> set (friends (addFriend fid u))"
  "set (friends (addFriend fid u)) = insert fid (set (friends u))"
  by (auto simp: addFriend_def)

lemma friends_add_success:
  assumes a: "getUserById (users s) actorId = Some actor"
    and f: "getUserByCode up (users s) code = Some friend"
    and ne: "userId friend \<noteq> userId actor"
  shows "snd (friends_add up s actorId code)
           = Ok (PFriends (friendsPayload (fst (friends_add up s actorId code)) actorId))"
    and "getUserById (users (fst (friends_add up s actorId code))) actorId
           = Some (addFriend (userId friend) actor)"
    and "getUserByCode up (users (fst (friends_add up s actorId code))) code
           = Some (addFriend actorId friend)"
    and "map userId (users (fst (friends_add up s actorId code))) = map userId (users s)"
    and "fst (friends_add up s actorId code)
           = s\<lparr>users := users (fst (friends_add up s actorId code))\<rparr>"
proof -
  let ?idP = "\<lambda>u. userId u = actorId"
  let ?codeP = "\<lambda>u. up (friendCode u) = up code"
  let ?fA = "addFriend (userId friend)"
  let ?fF = "addFriend (userId actor)"
  let ?users1 = "mutateFirst ?idP ?fA (users s)"
  let ?users2 = "mutateFirst ?codeP ?fF ?users1"
  have aid: "userId actor = actorId"
    using a by (auto simp: getUserById_def find_Some_iff)
  have unf: "friends_add up s actorId code
      = (s\<lparr>users := ?users2\<rparr>, Ok (PFriends (friendsPayload (s\<lparr>users := ?users2\<rparr>) (userId actor))))"
    using a f ne by (simp add: friends_add_def Let_def)
  have fa: "find ?idP (users s) = Some actor" using a by (simp add: getUserById_def)
  have ff: "find ?codeP (users s) = Some friend" using f by (simp add: getUserByCode_def)
  have nf: "\<not> ?idP friend" using ne aid by simp
  have a1: "find ?idP ?users1 = Some (?fA actor)"
    using fa by (simp add: find_mutateFirst_same addFriend_def)
  have f1: "find ?codeP ?users1 = Some friend"
    using find_mutateFirst_other [where Q = ?codeP and P = ?idP and f = ?fA
        and xs = "users s" and q = friend] ff nf
    by (simp add: addFriend_def)
  have f2: "find ?codeP ?users2 = Some (?fF friend)"
    using f1 by (simp add: find_mutateFirst_same addFriend_def)
  have a2: "find ?idP ?users2 = Some (?fA actor)"
    using find_mutateFirst_apart [where Q = ?idP and P = ?codeP and f = ?fF
        and xs = ?users1 and q = "?fA actor" and p = friend] a1 f1 nf
    by (simp add: addFriend_def)
  show "snd (friends_add up s actorId code)
           = Ok (PFriends (friendsPayload (fst (friends_add up s actorId code)) actorId))"
    by (simp add: unf aid)
  show "getUserById (users (fst (friends_add up s actorId code))) actorId
           = Some (addFriend (userId friend) actor)"
    using a2 by (simp add: unf getUserById_def)
  show "getUserByCode up (users (fst (friends_add up s actorId code))) code
           = Some (addFriend actorId friend)"
    using f2 by (simp add: unf getUserByCode_def aid)
  show "map userId (users (fst (friends_add up s actorId code))) = map userId (users s)"
    by (simp add: unf map_mutateFirst addFriend_def)
  show "fst (friends_add up s actorId code)
           = s\<lparr>users := users (fst (friends_add up s actorId code))\<rparr>"
    by (simp add: unf)
qed

lemma addFriend_again: "addFriend fid (addFriend fid u) = addFriend fid u"
  by (simp add: addFriend_def)

lemma friends_add_stable:
  assumes a: "getUserById (users s) actorId = Some actor"
    and f: "getUserByCode up (users s) code = Some friend"
    and ne: "userId friend \<noteq> userId actor"
    and ha: "userId friend \<in> set (friends actor)"
    and hf: "userId actor \<in> set (friends friend)"
  shows "fst (friends_add up s actorId code) = s"
proof -
  have fa: "find (\<lambda>u. userId u = actorId) (users s) = Some actor"
    using a by (simp add: getUserById_def)
  have ff: "find (\<lambda>u. up (friendCode u) = up code) (users s) = Some friend"
    using f by (simp add: getUserByCode_def)
  have u1: "mutateFirst (\<lambda>u. userId u = actorId) (addFriend (userId friend)) (users s)
              = users s"
    using mutateFirst_fixed [where P = "\<lambda>u. userId u = actorId" and xs = "users s"
        and f = "addFriend (userId friend)"] fa ha
    by (simp add: addFriend_def)
  have u2: "mutateFirst (\<lambda>u. up (friendCode u) = up code) (addFriend (userId actor)) (users s)
              = users s"
    using mutateFirst_fixed [where P = "\<lambda>u. up (friendCode u) = up code" and xs = "users s"
        and f = "addFriend (userId actor)"] ff hf
    by (simp add: addFriend_def)
  show ?thesis
    using a f ne by (simp add: friends_add_def Let_def u1 u2)
qed

lemma friends_add_twice:
  "fst (friends_add up (fst (friends_add up s actorId code)) actorId code)
     = fst (friends_add up s actorId code)"
proof (cases "getUserById (users s) actorId")
  case None
  then show ?thesis by (simp add: friends_add_def)
next
  case (Some actor)
  note a = Some
  show ?thesis
  proof (cases "getUserByCode up (users s) code")
    case None
    with a show ?thesis by (simp add: friends_add_def)
  next
    case (Some friend)
    show ?thesis
    proof (cases "userId friend = userId actor")
      case True
      with a Some show ?thesis by (simp add: friends_add_def)
    next
      case False
      have aid: "userId actor = actorId"
        using a by (auto simp: getUserById_def find_Some_iff)
      note r = friends_add_success [OF a Some False]
      show ?thesis
        by (rule friends_add_stable [OF r(2) r(3)])
           (use False aid in \<open>simp_all add: addFriend_def\<close>)
    qed
  qed
qed

text \<open>
  User ids stay unique in the directory: only \<open>auth\<close> adds a record, and only for an
  id that has none.
\<close>

lemma friends_list_users: "users (fst (friends_list s a)) = users s"
  unfolding friends_list_def by (simp add: Let_def split: option.splits)

lemma room_create_users: "users (fst (room_create s a game newId)) = users s"
  unfolding room_create_def by (simp add: Let_def split: option.splits)

lemma room_join_users: "users (fst (room_join s a rid sp)) = users s"
  unfolding room_join_def by (simp add: Let_def split: option.splits)

lemma room_state_users: "users (fst (room_state s a rid)) = users s"
  unfolding room_state_def by (simp add: Let_def split: option.splits)

lemma room_chat_history_users: "users (fst (room_chat_history s a rid)) = users s"
  unfolding room_chat_history_def by (simp add: Let_def split: option.splits)

lemma room_chat_send_users: "users (fst (fst (room_chat_send s a rid txt e))) = users s"
  unfolding room_chat_send_def by (simp add: Let_def split: option.splits)

lemma room_ready_users: "users (fst (room_ready s a rid rdy)) = users s"
  unfolding room_ready_def by (simp add: Let_def split: option.splits)

lemma room_lock_users: "users (fst (room_lock s a rid lck)) = users s"
  unfolding room_lock_def by (simp add: Let_def split: option.splits)

lemma room_kick_users: "users (fst (room_kick s a rid target)) = users s"
  unfolding room_kick_def by (simp add: Let_def split: option.splits)

lemma room_transferHost_users: "users (fst (room_transferHost s a rid target)) = users s"
  unfolding room_transferHost_def by (simp add: Let_def split: option.splits)

lemma netplay_start_users: "users (fst (netplay_start s a rid game gname plat emu hash proto core rom e)) = users s"
  unfolding netplay_start_def by (simp add: Let_def split: option.splits)

lemma stream_start_users: "users (fst (stream_start s a rid game gname plat e)) = users s"
  unfolding stream_start_def by (simp add: Let_def split: option.splits)

lemma netplay_input_users: "users (fst (netplay_input s a rid frame state e)) = users s"
  unfolding netplay_input_def by (simp add: Let_def split: option.splits)

lemma stream_signal_users: "users (fst (stream_signal s a rid target sigOk e)) = users s"
  unfolding stream_signal_def by (simp add: Let_def split: option.splits)

lemma stream_input_users: "users (fst (stream_input s a rid state e)) = users s"
  unfolding stream_input_def by (simp add: Let_def split: option.splits)

lemma room_pause_users: "users (fst (room_pause s a rid paused e)) = users s"
  unfolding room_pause_def by (simp add: Let_def split: option.splits)

lemma room_close_users: "users (fst (room_close s a rid)) = users s"
  unfolding room_close_def by (simp add: Let_def split: option.splits)

lemma invite_send_users: "users (fst (invite_send s a friend rid game e)) = users s"
  unfolding invite_send_def by (simp add: Let_def split: option.splits)

lemma invite_respond_users: "users (fst (invite_respond s a iid acc)) = users s"
  unfolding invite_respond_def by (simp add: Let_def split: option.splits)


lemma auth_users:
  assumes "distinct (map userId (users s))"
  shows "distinct (map userId (users (fst (auth s ws uid name code av))))"
proof (cases "getUserById (users s) uid")
  case None
  then have "uid \<notin> userId ` set (users s)"
    by (auto simp: getUserById_def find_None_iff)
  with None assms show ?thesis
    by (simp add: auth_def setSocketUser_def Let_def)
next
  case (Some existing)
  with assms show ?thesis
    by (simp add: auth_def setSocketUser_def Let_def map_mutateFirst)
qed

lemma friends_add_users:
  "map userId (users (fst (friends_add up s a code))) = map userId (users s)"
  by (simp add: friends_add_def Let_def map_mutateFirst addFriend_keeps
      split: option.splits)

lemma disconnect_users: "users (disconnect s ws) = users s"
  by (simp add: disconnect_def dropSocketUser_def removeUserFromRooms_def Let_def
      split: option.splits)

lemma dispatch_users:
  "map userId (users (fst (dispatch up s a req e))) = map userId (users s)"
  by (cases req) (simp_all add: friends_add_users friends_list_users room_create_users room_join_users room_state_users room_chat_history_users room_chat_send_users room_ready_users room_lock_users room_kick_users room_transferHost_users netplay_start_users stream_start_users netplay_input_users stream_signal_users stream_input_users room_pause_users room_close_users invite_send_users invite_respond_users)

lemma handle_users:
  "distinct (map userId (users s))
   \<Longrightarrow> distinct (map userId (users (fst (handle up s ws req e))))"
  unfolding handle_def
  by (cases req)
     (auto simp del: dispatch.simps simp add: auth_users dispatch_users split: option.splits)

lemma step_users:
  "distinct (map userId (users s)) \<Longrightarrow> distinct (map userId (users (step up s i)))"
  by (cases i) (simp_all add: handle_users disconnect_users)

lemma run_users:
  "distinct (map userId (users s)) \<Longrightarrow> distinct (map userId (users (run up s ins)))"
  unfolding run_def
  by (induction ins arbitrary: s) (simp_all add: step_users)

text \<open>
  C8. \<open>friends:add\<close> is refused when no user has the friend code and when the code is
  the actor's own. Otherwise (user ids being unique in the directory, as \<open>auth\<close> keeps
  them) it succeeds and both users list each other afterwards: the actor's record gains
  the friend's id and the friend's record the actor's. Sending the same request again
  changes nothing. Unique user ids are kept by every run of the server.
\<close>

theorem friends_add_symmetric_idempotent:
  "(getUserByCode up (users s) code = None
      \<longrightarrow> friends_add up s actorId code = (s, Err ''Friend code not found''))
   \<and> (getUserById (users s) actorId = Some actor
        \<and> getUserByCode up (users s) code = Some friend \<and> userId friend = userId actor
      \<longrightarrow> friends_add up s actorId code = (s, Err ''Cannot add yourself''))
   \<and> (getUserById (users s) actorId = Some actor
        \<and> getUserByCode up (users s) code = Some friend \<and> userId friend \<noteq> userId actor
        \<and> distinct (map userId (users s))
      \<longrightarrow> snd (friends_add up s actorId code)
            = Ok (PFriends (friendsPayload (fst (friends_add up s actorId code)) actorId))
          \<and> areFriends (fst (friends_add up s actorId code)) actorId (userId friend)
          \<and> areFriends (fst (friends_add up s actorId code)) (userId friend) actorId
          \<and> getUserById (users (fst (friends_add up s actorId code))) actorId
              = Some (addFriend (userId friend) actor)
          \<and> getUserById (users (fst (friends_add up s actorId code))) (userId friend)
              = Some (addFriend actorId friend))
   \<and> fst (friends_add up (fst (friends_add up s actorId code)) actorId code)
       = fst (friends_add up s actorId code)
   \<and> (distinct (map userId us)
      \<longrightarrow> distinct (map userId (users (run up (initial us) ins))))"
proof -
  have c4: "distinct (map userId (users (run up (initial us) ins)))"
    if "distinct (map userId us)"
    by (rule run_users) (use that in \<open>simp add: initial_def\<close>)
  have c1: "friends_add up s actorId code = (s, Err ''Friend code not found'')"
    if "getUserByCode up (users s) code = None"
    using that by (simp add: friends_add_def split: option.splits)
  have c2: "friends_add up s actorId code = (s, Err ''Cannot add yourself'')"
    if "getUserById (users s) actorId = Some actor"
      "getUserByCode up (users s) code = Some friend" "userId friend = userId actor"
    using that by (simp add: friends_add_def)
  have c3: "snd (friends_add up s actorId code)
            = Ok (PFriends (friendsPayload (fst (friends_add up s actorId code)) actorId))
          \<and> areFriends (fst (friends_add up s actorId code)) actorId (userId friend)
          \<and> areFriends (fst (friends_add up s actorId code)) (userId friend) actorId
          \<and> getUserById (users (fst (friends_add up s actorId code))) actorId
              = Some (addFriend (userId friend) actor)
          \<and> getUserById (users (fst (friends_add up s actorId code))) (userId friend)
              = Some (addFriend actorId friend)"
    if a: "getUserById (users s) actorId = Some actor"
      and f: "getUserByCode up (users s) code = Some friend"
      and ne: "userId friend \<noteq> userId actor"
      and d: "distinct (map userId (users s))"
  proof -
    note r = friends_add_success [OF a f ne]
    let ?us = "users (fst (friends_add up s actorId code))"
    have m: "addFriend actorId friend \<in> set ?us"
      using r(3) by (auto simp: getUserByCode_def dest: find_is_member)
    have d2: "distinct (map userId ?us)" using d r(4) by simp
    have "find (\<lambda>u. userId u = userId (addFriend actorId friend)) ?us
            = Some (addFriend actorId friend)"
      by (rule find_member_by_key [OF d2 m])
    then have g: "getUserById ?us (userId friend) = Some (addFriend actorId friend)"
      by (simp add: getUserById_def addFriend_keeps)
    show ?thesis
      using r(1) r(2) g by (simp add: areFriends_def addFriend_keeps)
  qed
  show ?thesis using c1 c2 c3 c4 friends_add_twice by blast
qed

theorem friends_add_witness:
  "getUserById [ann, cid] ''u1'' = Some ann
   \<and> getUserByCode (\<lambda>c. c) [ann, cid] ''CCCC3333'' = Some cid
   \<and> userId cid \<noteq> userId ann \<and> distinct (map userId [ann, cid])
   \<and> areFriends (fst (friends_add (\<lambda>c. c) (initial [ann, cid]) ''u1'' ''CCCC3333'')) ''u1'' ''u3''
   \<and> areFriends (fst (friends_add (\<lambda>c. c) (initial [ann, cid]) ''u1'' ''CCCC3333'')) ''u3'' ''u1''"
proof -
  have u: "users (initial [ann, cid]) = [ann, cid]" by (simp add: initial_def)
  have a: "getUserById [ann, cid] ''u1'' = Some ann"
    by (simp add: getUserById_def ann_def cid_def)
  have f: "getUserByCode (\<lambda>c. c) [ann, cid] ''CCCC3333'' = Some cid"
    by (simp add: getUserByCode_def ann_def cid_def)
  have i: "userId cid = ''u3''" "userId ann = ''u1''" by (simp_all add: ann_def cid_def)
  have d: "distinct (map userId [ann, cid])" by (simp add: i)
  from friends_add_symmetric_idempotent [of "\<lambda>c. c" "initial [ann, cid]" "''CCCC3333''"
      "''u1''" ann cid] u a f i d
  show ?thesis by simp
qed

section \<open>Properties of the handlers\<close>

text \<open>The definitions a concrete run of the server unfolds.\<close>

lemmas scenario_defs = run_def handle_def auth_def setSocketUser_def initial_def
  getUserById_def getUserByCode_def friends_add_def addFriend_def friendsPayload_def
  room_create_def room_join_def room_ready_def stream_start_def players_def disconnect_def
  dropSocketUser_def removeUserFromRooms_def leaveRoom_def invite_send_def
  invite_respond_def isOnline_def areFriends_def isStream_def roomStatePayload_def
  plainEnv_def roomEnv_def inviteEnv_def Let_def List.map_filter_def




text \<open>
  C9. \<open>room:close\<close> for a room id that is not in the registry answers
  \<open>ok: true, {closed: false}\<close> and changes nothing, while every other handler that
  looks a room up by the request's id answers \<open>ok: false, "Room not found"\<close>.
\<close>

theorem room_close_missing_room:
  assumes "rooms s rid = None" and "rid \<noteq> []"
  shows "room_close s a rid = (s, Ok (PClosed False))
       \<and> room_join s a rid sp = (s, Err ''Room not found'')
       \<and> room_state s a rid = (s, Err ''Room not found'')
       \<and> room_chat_history s a rid = (s, Err ''Room not found'')
       \<and> room_chat_send s a rid txt e = ((s, Err ''Room not found''), [])
       \<and> room_ready s a rid rdy = (s, Err ''Room not found'')
       \<and> room_lock s a rid lck = (s, Err ''Room not found'')
       \<and> room_kick s a rid target = (s, Err ''Room not found'')
       \<and> room_transferHost s a rid target = (s, Err ''Room not found'')
       \<and> room_pause s a rid paused e = (s, Err ''Room not found'')
       \<and> netplay_start s a rid game gname plat emu hash proto core rom e
            = (s, Err ''Room not found'')
       \<and> stream_start s a rid game gname plat e = (s, Err ''Room not found'')
       \<and> netplay_input s a rid frame state e = (s, Err ''Room not found'')
       \<and> stream_signal s a rid target sigOk e = (s, Err ''Room not found'')
       \<and> stream_input s a rid state e = (s, Err ''Room not found'')"
  using assms
  by (simp add: room_close_def room_join_def room_state_def room_chat_history_def
      room_chat_send_def room_ready_def room_lock_def room_kick_def room_transferHost_def
      room_pause_def netplay_start_def stream_start_def netplay_input_def stream_signal_def
      stream_input_def)

theorem room_close_missing_room_witness:
  "rooms (run (\<lambda>c. c) (initial []) lobby) ''GONE'' = None \<and> ''GONE'' \<noteq> []
   \<and> snd (room_close (run (\<lambda>c. c) (initial []) lobby) ''u1'' ''GONE'') = Ok (PClosed False)
   \<and> snd (room_state (run (\<lambda>c. c) (initial []) lobby) ''u1'' ''GONE'') = Err ''Room not found''
   \<and> snd (room_join (run (\<lambda>c. c) (initial []) lobby) ''u1'' ''GONE'' False)
       = Err ''Room not found''"
proof -
  have r: "rooms (run (\<lambda>c. c) (initial []) lobby) ''GONE'' = None"
    by (simp add: lobby_def scenario_defs)
  have n: "''GONE'' \<noteq> []" by simp
  from room_close_missing_room [OF r n, of "''u1''" False] r show ?thesis by simp
qed

text \<open>
  C10. \<open>invite:respond\<close> from a user the invite is not addressed to is refused and
  changes nothing: the invite is still registered, its addressee's response is then
  taken (neither "not found" nor "does not belong") and consumes it, and any response
  after that finds no invite.
\<close>

theorem invite_respond_wrong_user:
  assumes "invites s iid = Some invite" and "toUserId invite \<noteq> actorId"
  shows "invite_respond s actorId iid accept = (s, Err ''Invite does not belong to user'')
       \<and> invites (fst (invite_respond s actorId iid accept)) iid = Some invite
       \<and> snd (invite_respond (fst (invite_respond s actorId iid accept)) (toUserId invite) iid acc2)
            \<notin> {Err ''Invite not found'', Err ''Invite does not belong to user''}
       \<and> invites (fst (invite_respond (fst (invite_respond s actorId iid accept))
                         (toUserId invite) iid acc2)) iid = None
       \<and> snd (invite_respond (fst (invite_respond (fst (invite_respond s actorId iid accept))
                         (toUserId invite) iid acc2)) anyone iid acc3) = Err ''Invite not found''"
  using assms
  by (simp add: invite_respond_def Let_def split: option.split)

theorem invite_respond_wrong_user_witness:
  "invites (run (\<lambda>c. c) (initial []) streamLeft) ''invite-1'' = Some theInvite
   \<and> toUserId theInvite \<noteq> ''u1''
   \<and> snd (invite_respond (run (\<lambda>c. c) (initial []) streamLeft) ''u1'' ''invite-1'' True)
       = Err ''Invite does not belong to user''
   \<and> invites (fst (invite_respond (run (\<lambda>c. c) (initial []) streamLeft) ''u1'' ''invite-1''
        True)) ''invite-1'' = Some theInvite"
proof -
  have i: "invites (run (\<lambda>c. c) (initial []) streamLeft) ''invite-1'' = Some theInvite"
    by (simp add: streamLeft_def theInvite_def scenario_defs)
  have t: "toUserId theInvite \<noteq> ''u1''" by (simp add: theInvite_def)
  from invite_respond_wrong_user [OF i t, of True] i t show ?thesis by simp
qed

lemma sliceLast_short: "length xs \<le> n \<Longrightarrow> sliceLast n xs = xs"
  by (simp add: sliceLast_def)

lemma sliceLast_length: "length (sliceLast n xs) \<le> n"
  by (simp add: sliceLast_def)

lemma sliceLast_suffix: "take (length xs - n) xs @ sliceLast n xs = xs"
  by (simp add: sliceLast_def)

lemma sliceLast_last: "0 < n \<Longrightarrow> last (sliceLast n (xs @ [x])) = x"
  by (simp add: sliceLast_def)

text \<open>
  C7. A \<open>room:chat:send\<close> from a member with a text that is not blank stores one
  message and broadcasts that same message to every member; its text is the sent text,
  trimmed, cut to its first 400 code units. The log is then the last 200 entries of the
  old log with the message appended, so the message is its last entry and the head is
  what is dropped. In every state the server reaches, every room's log holds at most 200
  messages. \<open>room:chat:history\<close> returns the last 100 entries of the log, all of it
  when it is shorter.
\<close>

theorem chat_truncated_and_bounded:
  "(rooms s rid = Some room \<and> actorId \<in> set (members room) \<and> trim rawText \<noteq> []
      \<longrightarrow> room_chat_send s actorId rid rawText e
            = ((s\<lparr>rooms := (rooms s)(rid \<mapsto>
                    room\<lparr>chat := sliceLast 200
                      (chat room @ [newChatMessage s actorId room (trim rawText) e])\<rparr>)\<rparr>,
                Ok PDelivered),
               map (\<lambda>memberId. (memberId, newChatMessage s actorId room (trim rawText) e))
                 (members room))
          \<and> chatText (newChatMessage s actorId room (trim rawText) e) = take 400 (trim rawText)
          \<and> length (chatText (newChatMessage s actorId room (trim rawText) e)) \<le> 400
          \<and> last (sliceLast 200 (chat room @ [newChatMessage s actorId room (trim rawText) e]))
              = newChatMessage s actorId room (trim rawText) e
          \<and> length (sliceLast 200 (chat room @ [newChatMessage s actorId room (trim rawText) e]))
              \<le> 200)
   \<and> everyRoom chatBounded (run up (initial us) ins)
   \<and> (everyRoom chatBounded s \<longrightarrow> everyRoom chatBounded (step up s i))
   \<and> (rooms s rid = Some room \<and> actorId \<in> set (members room)
      \<longrightarrow> room_chat_history s actorId rid = (s, Ok (PChatHistory (sliceLast 100 (chat room))))
          \<and> length (sliceLast 100 (chat room)) \<le> 100
          \<and> take (length (chat room) - 100) (chat room) @ sliceLast 100 (chat room) = chat room)"
proof -
  have send: "room_chat_send s actorId rid rawText e
            = ((s\<lparr>rooms := (rooms s)(rid \<mapsto>
                    room\<lparr>chat := sliceLast 200
                      (chat room @ [newChatMessage s actorId room (trim rawText) e])\<rparr>)\<rparr>,
                Ok PDelivered),
               map (\<lambda>memberId. (memberId, newChatMessage s actorId room (trim rawText) e))
                 (members room))"
    if "rooms s rid = Some room" "actorId \<in> set (members room)" "trim rawText \<noteq> []"
    using that
    by (simp add: room_chat_send_def Let_def sendEventToRoom_def sliceLast_short)
  have msg: "chatText (newChatMessage s actorId room (trim rawText) e) = take 400 (trim rawText)"
    by (simp add: newChatMessage_def)
  have hist: "room_chat_history s actorId rid = (s, Ok (PChatHistory (sliceLast 100 (chat room))))"
    if "rooms s rid = Some room" "actorId \<in> set (members room)"
    using that by (simp add: room_chat_history_def)
  have inv: "everyRoom chatBounded (run up (initial us) ins)"
    by (rule run_chat) (rule initial_everyRoom)
  show ?thesis
    using send msg hist inv step_chat [of s up i]
    by (simp add: sliceLast_length sliceLast_suffix sliceLast_last)
qed

theorem chat_truncated_and_bounded_witness:
  "rooms (run (\<lambda>c. c) (initial []) lobby) ''3F2A9C10'' = Some lobbyRoom
   \<and> ''u2'' \<in> set (members lobbyRoom) \<and> trim longText \<noteq> []
   \<and> length (chatText (newChatMessage (run (\<lambda>c. c) (initial []) lobby) ''u2'' lobbyRoom
        (trim longText) plainEnv)) = 400
   \<and> snd (fst (room_chat_send (run (\<lambda>c. c) (initial []) lobby) ''u2'' ''3F2A9C10'' longText
        plainEnv)) = Ok PDelivered
   \<and> map fst (snd (room_chat_send (run (\<lambda>c. c) (initial []) lobby) ''u2'' ''3F2A9C10'' longText
        plainEnv)) = [''u1'', ''u2'', ''u3'']"
proof -
  have r: "rooms (run (\<lambda>c. c) (initial []) lobby) ''3F2A9C10'' = Some lobbyRoom"
    by (simp add: lobby_def lobbyRoom_def scenario_defs)
  have m: "''u2'' \<in> set (members lobbyRoom)" by (simp add: lobbyRoom_def)
  have t: "trim longText = longText"
    by (simp add: trim_def longText_def isWhiteSpace_def)
  have n: "trim longText \<noteq> []" by (simp add: t) (simp add: longText_def)
  have l: "length (take 400 (trim longText)) = 400" by (simp add: t) (simp add: longText_def)
  have ms: "members lobbyRoom = [''u1'', ''u2'', ''u3'']" by (simp add: lobbyRoom_def)
  from chat_truncated_and_bounded [of "run (\<lambda>c. c) (initial []) lobby" "''3F2A9C10''" lobbyRoom
      "''u2''" longText plainEnv] r m n l ms
  show ?thesis by (simp add: comp_def)
qed

text \<open>
  C6. In every state the server reaches, every room's host is one of its members, and
  every message and every closing socket keeps it so. When a user leaves through a closed
  socket, the room is deleted exactly when no member is left, and if the user was the host
  the first remaining member becomes the host.
\<close>

theorem host_always_member:
  "everyRoom hostInMembers (run up (initial us) ins)
   \<and> (everyRoom hostInMembers s \<longrightarrow> everyRoom hostInMembers (step up s i))
   \<and> (leaveRoom uid room = None \<longleftrightarrow> filter (\<lambda>m. m \<noteq> uid) (members room) = [])
   \<and> (leaveRoom uid room = Some room' \<and> hostUserId room = uid
        \<longrightarrow> hostUserId room' = hd (members room') \<and> members room' \<noteq> []
            \<and> members room' = filter (\<lambda>m. m \<noteq> uid) (members room))"
proof -
  have a: "everyRoom hostInMembers (run up (initial us) ins)"
    by (rule run_host) (rule initial_everyRoom)
  have b: "leaveRoom uid room = None \<longleftrightarrow> filter (\<lambda>m. m \<noteq> uid) (members room) = []"
    by (simp add: leaveRoom_def Let_def split: list.splits)
  show ?thesis
    using a b step_host [of s up i] leaveRoom_failover [of uid room room']
      leaveRoom_result [of uid room room']
    by blast
qed

theorem host_always_member_witness:
  "map_option (\<lambda>r. (hostUserId r, members r))
       (rooms (run (\<lambda>c. c) (initial []) hostLeaves) ''3F2A9C10'') = Some (''u2'', [''u2''])
   \<and> map_option hostInMembers (rooms (run (\<lambda>c. c) (initial []) hostLeaves) ''3F2A9C10'')
       = Some True"
proof -
  have e: "map_option (\<lambda>r. (hostUserId r, members r))
       (rooms (run (\<lambda>c. c) (initial []) hostLeaves) ''3F2A9C10'') = Some (''u2'', [''u2''])"
    by (simp add: hostLeaves_def scenario_defs)
  then obtain room where r: "rooms (run (\<lambda>c. c) (initial []) hostLeaves) ''3F2A9C10'' = Some room"
    by blast
  from host_always_member [of "\<lambda>c. c" "[]" hostLeaves] r have "hostInMembers room"
    by (simp add: everyRoom_def)
  with e r show ?thesis by simp
qed

section \<open>Where the handlers part from the specification\<close>

text \<open>
  C2. A room's owner marks themself ready and then sends \<open>room:join\<close> for their own
  room with \<open>spectator: true\<close>. The join adds them to the spectators and leaves the
  ready list alone: the room then has a ready spectator.
\<close>

theorem ready_spectator_after_join:
  "map_option (\<lambda>r. (members r, spectators r, readyByUserId r, noReadySpectator r))
     (rooms (run (\<lambda>c. c) (initial []) readyThenSpectate) ''3F2A9C10'')
   = Some ([''u1''], [''u1''], [''u1''], False)"
  by (simp add: readyThenSpectate_def scenario_defs noReadySpectator_def)

text \<open>
  C4. A stream is started with two players and one of them disconnects. The room is
  unlocked and holds one active player, and a \<open>room:join\<close> of a third user who is not a
  spectator is still refused as "Streaming room is full".
\<close>

theorem stream_join_refused_below_two:
  "map_option (\<lambda>r. (players r, isStream r, locked r))
     (rooms (run (\<lambda>c. c) (initial []) streamLeft) ''3F2A9C10'') = Some ([''u1''], True, False)
   \<and> snd (room_join (run (\<lambda>c. c) (initial []) streamLeft) ''u3'' ''3F2A9C10'' False)
       = Err ''Streaming room is full''"
  by (simp add: streamLeft_def scenario_defs)

text \<open>
  C3. In the same state the invited third user is admitted by \<open>invite:respond\<close> while
  \<open>room:join\<close> refuses them: the two paths do not decide alike.
\<close>

theorem invite_accept_differs_from_join:
  "snd (invite_respond (run (\<lambda>c. c) (initial []) streamLeft) ''u3'' ''invite-1'' True)
     = Ok (PRoomId ''3F2A9C10'')
   \<and> snd (room_join (run (\<lambda>c. c) (initial []) streamLeft) ''u3'' ''3F2A9C10'' False)
       = Err ''Streaming room is full''"
  by (simp add: streamLeft_def scenario_defs)

end
